theory Spec2Isabelle
  imports Complex_Main "HOL-Library.Multiset" "HOL-Library.Log_Nat"
begin

section \<open>JavaScript values\<close>

text \<open>
  The program is one React module, \<^verbatim>\<open>src/App.jsx\<close>. Its data are plain JavaScript
  objects: account documents of the store, the editor's \<^verbatim>\<open>formData\<close>, update payloads.
  An object is a finite map from property names to values; a missing property reads as
  \<^verbatim>\<open>undefined\<close>.

  A finite number is the rational that the double stands for, and \<open>-0\<close> is identified
  with \<open>0\<close>. A numeric literal is read as its exact mathematical value; the operator
  \<^verbatim>\<open>+\<close> rounds to the nearest double, ties to even, as IEEE-754 has it.
  A \<^verbatim>\<open>Timestamp\<close> of the store carries the millisecond value that its
  \<^verbatim>\<open>toDate()\<close> yields. Strings are byte strings, so only the ASCII white space of
  JavaScript is recognised.
\<close>

datatype jsnum = NaN | PosInf | NegInf | Fin rat

datatype jsval =
    Undefined
  | Null
  | Bool bool
  | Num jsnum
  | Str string
  | Timestamp int
  | Arr "jsval list"
  | Obj "(string \<times> jsval) list"

type_synonym obj = "string \<rightharpoonup> jsval"

datatype js_error = TypeError | ReferenceError string | SyntaxError | FirestoreError

text \<open>Property read \<^verbatim>\<open>o.k\<close> on an object that exists.\<close>

definition get :: "obj \<Rightarrow> string \<Rightarrow> jsval" where
  "get ob k = (case ob k of None \<Rightarrow> Undefined | Some v \<Rightarrow> v)"

text \<open>Truthiness, as \<^verbatim>\<open>||\<close>, \<^verbatim>\<open>!\<close> and \<^verbatim>\<open>? :\<close> test it.\<close>

fun truthy :: "jsval \<Rightarrow> bool" where
  "truthy Undefined = False"
| "truthy Null = False"
| "truthy (Bool b) = b"
| "truthy (Num n) = (n \<noteq> NaN \<and> n \<noteq> Fin 0)"
| "truthy (Str s) = (s \<noteq> [])"
| "truthy (Timestamp t) = True"
| "truthy (Arr xs) = True"
| "truthy (Obj kvs) = True"

definition js_or :: "jsval \<Rightarrow> jsval \<Rightarrow> jsval" where
  "js_or a b = (if truthy a then a else b)"

subsection \<open>Numeric literals in strings\<close>

definition isWhiteSpace :: "char \<Rightarrow> bool" where
  "isWhiteSpace c = (c \<in> set [CHR 0x09, CHR 0x0A, CHR 0x0B, CHR 0x0C, CHR 0x0D, CHR 0x20])"

definition js_trim :: "string \<Rightarrow> string" where
  "js_trim s = rev (dropWhile isWhiteSpace (rev (dropWhile isWhiteSpace s)))"

definition isDigit :: "char \<Rightarrow> bool" where
  "isDigit c = (c \<in> set ''0123456789'')"

definition digitVal :: "char \<Rightarrow> nat" where
  "digitVal c = of_char c - 48"

definition digitsVal :: "string \<Rightarrow> nat" where
  "digitsVal ds = foldl (\<lambda>acc c. 10 * acc + digitVal c) 0 ds"

definition scale10 :: "rat \<Rightarrow> int \<Rightarrow> rat" where
  "scale10 m e = (if 0 \<le> e then m * 10 ^ nat e else m / 10 ^ nat (- e))"

text \<open>
  \<^verbatim>\<open>ExponentPart\<close>: \<open>e\<close> or \<open>E\<close>, an optional sign, at least one digit. Returns the
  exponent and the rest of the string; without a complete exponent part nothing is consumed.
\<close>

definition exponentPart :: "string \<Rightarrow> int \<times> string" where
  "exponentPart s =
     (case s of
        [] \<Rightarrow> (0, s)
      | c # r \<Rightarrow>
          if c = CHR ''e'' \<or> c = CHR ''E'' then
            (let sg = (case r of [] \<Rightarrow> 1 | d # _ \<Rightarrow> if d = CHR ''-'' then - 1 else (1::int));
                 r1 = (case r of [] \<Rightarrow> r | d # r' \<Rightarrow> if d = CHR ''-'' \<or> d = CHR ''+'' then r' else r);
                 ds = takeWhile isDigit r1
             in if ds = [] then (0, s) else (sg * int (digitsVal ds), dropWhile isDigit r1))
          else (0, s))"

text \<open>
  The longest prefix that is a \<^verbatim>\<open>StrUnsignedDecimalLiteral\<close>:
  \<^verbatim>\<open>Infinity\<close>, \<^verbatim>\<open>digits . digits? exp?\<close>, \<^verbatim>\<open>. digits exp?\<close> or \<^verbatim>\<open>digits exp?\<close>.
\<close>

definition unsignedDecimal :: "string \<Rightarrow> (jsnum \<times> string) option" where
  "unsignedDecimal s =
     (if take 8 s = ''Infinity'' then Some (PosInf, drop 8 s)
      else
        (let ip = takeWhile isDigit s;
             r1 = dropWhile isDigit s;
             dot = (r1 \<noteq> [] \<and> hd r1 = CHR ''.'');
             fp = (if dot then takeWhile isDigit (tl r1) else []);
             r2 = (if dot then dropWhile isDigit (tl r1) else r1)
         in if ip = [] \<and> fp = [] then None
            else
              (let ex = exponentPart r2
               in Some (Fin (scale10 (of_nat (digitsVal (ip @ fp))) (fst ex - int (length fp))),
                        snd ex))))"

fun negate :: "jsnum \<Rightarrow> jsnum" where
  "negate NaN = NaN"
| "negate PosInf = NegInf"
| "negate NegInf = PosInf"
| "negate (Fin r) = Fin (- r)"

definition signedDecimal :: "string \<Rightarrow> (jsnum \<times> string) option" where
  "signedDecimal s =
     (case s of
        [] \<Rightarrow> None
      | c # r \<Rightarrow>
          if c = CHR ''+'' then unsignedDecimal r
          else if c = CHR ''-'' then map_option (\<lambda>(v, rest). (negate v, rest)) (unsignedDecimal r)
          else unsignedDecimal s)"

text \<open>
  \<^verbatim>\<open>parseFloat(string)\<close>: leading white space is skipped, the longest prefix that is a
  decimal literal is read, anything after it is ignored; \<^verbatim>\<open>NaN\<close> when there is none.
\<close>

definition parseFloat :: "string \<Rightarrow> jsnum" where
  "parseFloat s =
     (case signedDecimal (dropWhile isWhiteSpace s) of
        None \<Rightarrow> NaN
      | Some (v, _) \<Rightarrow> v)"

text \<open>\<^verbatim>\<open>0x\<close>, \<^verbatim>\<open>0o\<close> and \<^verbatim>\<open>0b\<close> literals, which \<^verbatim>\<open>Number\<close> reads and \<^verbatim>\<open>parseFloat\<close> does not.\<close>

definition radixDigit :: "char \<Rightarrow> nat option" where
  "radixDigit c =
     (let n = (of_char c :: nat)
      in if 48 \<le> n \<and> n \<le> 57 then Some (n - 48)
         else if 97 \<le> n \<and> n \<le> 102 then Some (n - 87)
         else if 65 \<le> n \<and> n \<le> 70 then Some (n - 55)
         else None)"

definition radixVal :: "nat \<Rightarrow> string \<Rightarrow> nat option" where
  "radixVal b ds =
     (if ds \<noteq> [] \<and> list_all (\<lambda>c. case radixDigit c of None \<Rightarrow> False | Some d \<Rightarrow> d < b) ds
      then Some (foldl (\<lambda>acc c. b * acc + (case radixDigit c of None \<Rightarrow> 0 | Some d \<Rightarrow> d)) 0 ds)
      else None)"

definition nonDecimalLiteral :: "string \<Rightarrow> nat option" where
  "nonDecimalLiteral t =
     (if take 2 t = ''0x'' \<or> take 2 t = ''0X'' then radixVal 16 (drop 2 t)
      else if take 2 t = ''0o'' \<or> take 2 t = ''0O'' then radixVal 8 (drop 2 t)
      else if take 2 t = ''0b'' \<or> take 2 t = ''0B'' then radixVal 2 (drop 2 t)
      else None)"

text \<open>
  \<^verbatim>\<open>Number(string)\<close>: the trimmed string is empty (\<open>0\<close>) or a numeric literal that
  spans all of it; otherwise \<^verbatim>\<open>NaN\<close>.
\<close>

definition StringToNumber :: "string \<Rightarrow> jsnum" where
  "StringToNumber s =
     (let t = js_trim s
      in if t = [] then Fin 0
         else
           (case nonDecimalLiteral t of
              Some n \<Rightarrow> Fin (of_nat n)
            | None \<Rightarrow>
                (case signedDecimal t of
                   Some (v, []) \<Rightarrow> v
                 | _ \<Rightarrow> NaN)))"


subsection \<open>The environment of one handler run\<close>

text \<open>
  What the browser, the Firestore SDK and the generative endpoint decide, not the program:
  the clock, how a date string becomes a \<^verbatim>\<open>Timestamp\<close> (\<open>None\<close> when
  \<^verbatim>\<open>Timestamp.fromDate\<close> throws on a date out of range), the conversions of objects
  that need their \<^verbatim>\<open>valueOf\<close> or \<^verbatim>\<open>toString\<close>, the reply of the endpoint, the
  parser behind \<^verbatim>\<open>JSON.parse\<close>, whether the store accepts a write and the id it gives a
  new document, and the browser's type checks on \<^verbatim>\<open>number\<close> and \<^verbatim>\<open>email\<close> inputs.
  The endpoint's reply is one of: no API key is configured; \<^verbatim>\<open>fetch\<close> throws; the body
  of the response is not JSON, so that \<^verbatim>\<open>response.json()\<close> throws; or the body decodes
  and holds the text of the first candidate, or none.
\<close>

datatype api_reply =
    NoApiKey
  | FetchFailed
  | BodyNotJson
  | Reply "string option"

record env =
  timestampNow :: int
  isoNow :: string
  timestampFromDate :: "jsval \<Rightarrow> jsval option"
  objectToNumber :: "jsval \<Rightarrow> jsnum"
  plusNonNumeric :: "jsval \<Rightarrow> jsval \<Rightarrow> jsval"
  apiReply :: api_reply
  jsonParser :: "string \<Rightarrow> jsval option"
  storeAccepts :: bool
  newDocId :: string
  typeConstraintsOk :: bool

text \<open>\<^verbatim>\<open>Number(v)\<close>.\<close>

definition ToNumber :: "env \<Rightarrow> jsval \<Rightarrow> jsnum" where
  "ToNumber e v =
     (case v of
        Undefined \<Rightarrow> NaN
      | Null \<Rightarrow> Fin 0
      | Bool b \<Rightarrow> (if b then Fin 1 else Fin 0)
      | Num n \<Rightarrow> n
      | Str s \<Rightarrow> StringToNumber s
      | _ \<Rightarrow> objectToNumber e v)"

text \<open>
  Rounding a rational to the nearest double: 53 bits of significand, the exponent of the
  last bit from \<open>-1074\<close> (subnormal numbers) to \<open>971\<close>, a tie to the even significand,
  and an infinity from \<open>2^1024\<close> on.
\<close>

definition scale2 :: "rat \<Rightarrow> int \<Rightarrow> rat" where
  "scale2 m e = (if 0 \<le> e then m * 2 ^ nat e else m / 2 ^ nat (- e))"

text \<open>The integer \<open>k\<close> with \<open>2^k \<le> r < 2^(k+1)\<close>, for a positive \<open>r\<close>.\<close>

definition ilog2 :: "rat \<Rightarrow> int" where
  "ilog2 r =
     (let k = bitlen (fst (quotient_of r)) - bitlen (snd (quotient_of r))
      in if scale2 1 k \<le> r then k else k - 1)"

definition roundHalfEven :: "rat \<Rightarrow> int" where
  "roundHalfEven q =
     (let f = \<lfloor>q\<rfloor>; d = q - of_int f
      in if d < 1 / 2 then f else if 1 / 2 < d then f + 1 else if even f then f else f + 1)"

definition toDouble :: "rat \<Rightarrow> jsnum" where
  "toDouble r =
     (if r = 0 then Fin 0
      else
        (let a = \<bar>r\<bar>;
             ex = max (ilog2 a - 52) (- 1074);
             m = roundHalfEven (scale2 a (- ex));
             v = scale2 (of_int m) ex
         in if scale2 1 1024 \<le> v then (if 0 < r then PosInf else NegInf)
            else Fin (if 0 < r then v else - v)))"

fun double :: "jsnum \<Rightarrow> jsnum" where
  "double (Fin r) = toDouble r"
| "double x = x"

fun addDoubles :: "jsnum \<Rightarrow> jsnum \<Rightarrow> jsnum" where
  "addDoubles NaN y = NaN"
| "addDoubles x NaN = NaN"
| "addDoubles PosInf NegInf = NaN"
| "addDoubles NegInf PosInf = NaN"
| "addDoubles PosInf y = PosInf"
| "addDoubles x PosInf = PosInf"
| "addDoubles NegInf y = NegInf"
| "addDoubles x NegInf = NegInf"
| "addDoubles (Fin a) (Fin b) = toDouble (a + b)"

text \<open>The sum of two numbers: the operands are doubles, and so is the result.\<close>

definition add :: "jsnum \<Rightarrow> jsnum \<Rightarrow> jsnum" where
  "add x y = addDoubles (double x) (double y)"

fun isPrimitiveNonString :: "jsval \<Rightarrow> bool" where
  "isPrimitiveNonString Undefined = True"
| "isPrimitiveNonString Null = True"
| "isPrimitiveNonString (Bool b) = True"
| "isPrimitiveNonString (Num n) = True"
| "isPrimitiveNonString v = False"

text \<open>
  The operator \<^verbatim>\<open>+\<close>: numeric addition unless an operand is a string or an object, where
  it concatenates strings made by the runtime.
\<close>

definition js_plus :: "env \<Rightarrow> jsval \<Rightarrow> jsval \<Rightarrow> jsval" where
  "js_plus e a b =
     (if isPrimitiveNonString a \<and> isPrimitiveNonString b
      then Num (add (ToNumber e a) (ToNumber e b))
      else plusNonNumeric e a b)"

section \<open>The Pipeline Board\<close>

definition funnelStages :: "(string \<times> string) list" where
  "funnelStages =
     [(''Business Intel'', ''bg-stone-500''),
      (''New Leads'', ''bg-indigo-500''),
      (''Qualified Opportunities'', ''bg-blue-500''),
      (''Needs Analysis'', ''bg-purple-500''),
      (''Proposal Sent'', ''bg-yellow-500''),
      (''Negotiation'', ''bg-orange-500''),
      (''Closed Won'', ''bg-green-500''),
      (''Closed Lost'', ''bg-red-500''),
      (''Nurturing'', ''bg-gray-500'')]"

definition stageNames :: "string list" where
  "stageNames = map fst funnelStages"

subsection \<open>The snapshot handler\<close>

text \<open>\<^verbatim>\<open>snapshot.docs.map(doc => ({ ...doc.data(), id: doc.id }))\<close>\<close>

definition fetchedAccounts :: "(string \<times> obj) list \<Rightarrow> obj list" where
  "fetchedAccounts docs = map (\<lambda>(i, d). d(''id'' \<mapsto> Str i)) docs"

definition sentinel :: int where
  "sentinel = 8640000000000000"

text \<open>
  \<^verbatim>\<open>a.nextFollowUpDate?.toDate() || new Date(8640000000000000)\<close>, as milliseconds.
  The optional chain stops on \<^verbatim>\<open>null\<close> and \<^verbatim>\<open>undefined\<close> only; on any other value
  that is not a \<^verbatim>\<open>Timestamp\<close> the call of \<^verbatim>\<open>toDate\<close> throws.
\<close>

definition followUpDate :: "obj \<Rightarrow> js_error + int" where
  "followUpDate a =
     (case get a ''nextFollowUpDate'' of
        Undefined \<Rightarrow> Inr sentinel
      | Null \<Rightarrow> Inr sentinel
      | Timestamp t \<Rightarrow> Inr t
      | _ \<Rightarrow> Inl TypeError)"

definition dateMs :: "obj \<Rightarrow> int" where
  "dateMs a = (case followUpDate a of Inr t \<Rightarrow> t | Inl _ \<Rightarrow> sentinel)"

text \<open>The comparator \<^verbatim>\<open>(a, b) => dateA - dateB\<close>.\<close>

definition compareFollowUp :: "obj \<Rightarrow> obj \<Rightarrow> int" where
  "compareFollowUp a b = dateMs a - dateMs b"

text \<open>
  \<^verbatim>\<open>Array.prototype.sort\<close> with a comparator: a stable sort, modelled by stable insertion.
\<close>

fun insertBy :: "('a \<Rightarrow> 'a \<Rightarrow> int) \<Rightarrow> 'a \<Rightarrow> 'a list \<Rightarrow> 'a list" where
  "insertBy cmp x [] = [x]"
| "insertBy cmp x (y # ys) = (if cmp x y \<le> 0 then x # y # ys else y # insertBy cmp x ys)"

definition Array_sort :: "('a \<Rightarrow> 'a \<Rightarrow> int) \<Rightarrow> 'a list \<Rightarrow> 'a list" where
  "Array_sort cmp xs = foldr (insertBy cmp) xs []"

text \<open>
  One bucket. An array of fewer than two elements is sorted without a call of the
  comparator; otherwise every element is compared at least once, and the comparator throws
  on an element whose follow-up date is neither absent nor a \<^verbatim>\<open>Timestamp\<close>.
\<close>

definition sortedAccounts :: "string \<Rightarrow> obj list \<Rightarrow> js_error + obj list" where
  "sortedAccounts stageName fetched =
     (let bucket = filter (\<lambda>acc. get acc ''stage'' = Str stageName) fetched
      in if length bucket < 2 then Inr bucket
         else if list_ex (\<lambda>a. isl (followUpDate a)) bucket then Inl TypeError
         else Inr (Array_sort compareFollowUp bucket))"

text \<open>
  \<^verbatim>\<open>funnelStages.forEach(stage => { organizedAccounts[stage.name] = sortedAccounts })\<close>:
  the object keeps its keys in the order of insertion, so it is a list of pairs.
\<close>

fun organize :: "string list \<Rightarrow> obj list \<Rightarrow> js_error + (string \<times> obj list) list" where
  "organize [] fetched = Inr []"
| "organize (n # ns) fetched =
     (case sortedAccounts n fetched of
        Inl err \<Rightarrow> Inl err
      | Inr bucket \<Rightarrow>
          (case organize ns fetched of
             Inl err \<Rightarrow> Inl err
           | Inr rest \<Rightarrow> Inr ((n, bucket) # rest)))"

definition organizedAccounts :: "(string \<times> obj) list \<Rightarrow> js_error + (string \<times> obj list) list" where
  "organizedAccounts docs = organize stageNames (fetchedAccounts docs)"

subsection \<open>Aggregates\<close>

text \<open>\<^verbatim>\<open>Object.values(accounts).flat()\<close>\<close>

definition flatAccounts :: "(string \<times> obj list) list \<Rightarrow> obj list" where
  "flatAccounts accs = concat (map snd accs)"

definition isActive :: "obj \<Rightarrow> bool" where
  "isActive acc =
     (get acc ''stage'' \<noteq> Str ''Closed Won'' \<and> get acc ''stage'' \<noteq> Str ''Closed Lost''
      \<and> get acc ''stage'' \<noteq> Str ''Business Intel'')"

definition totalPipelineValue :: "env \<Rightarrow> (string \<times> obj list) list \<Rightarrow> jsval" where
  "totalPipelineValue e accs =
     foldl (\<lambda>sum acc. js_plus e sum (js_or (get acc ''value'') (Num (Fin 0)))) (Num (Fin 0))
       (filter isActive (flatAccounts accs))"

definition numberOfActiveDeals :: "(string \<times> obj list) list \<Rightarrow> nat" where
  "numberOfActiveDeals accs = length (filter isActive (flatAccounts accs))"


section \<open>The document store and the board's handlers\<close>

text \<open>
  The store is the external collaborator behind \<^verbatim>\<open>addDoc\<close> and \<^verbatim>\<open>updateDoc\<close>: one
  collection of account documents per user, \<^verbatim>\<open>artifacts/<appId>/users/<uid>/accounts\<close>,
  so a document is addressed by the user's id and its own. A write that the store rejects
  leaves it as it was and makes the awaited call throw; an accepted \<^verbatim>\<open>updateDoc\<close>
  overwrites the fields of the payload and keeps the others, and needs the document to exist.
  Every call that the program issues is recorded, accepted or not.
\<close>

type_synonym store = "(string \<times> string) \<rightharpoonup> obj"

datatype store_op =
    AddDoc string obj
  | UpdateDoc string string obj

definition addDoc :: "env \<Rightarrow> store \<Rightarrow> string \<Rightarrow> obj \<Rightarrow> store option" where
  "addDoc e s uid payload =
     (if storeAccepts e then Some (s((uid, newDocId e) \<mapsto> payload)) else None)"

definition updateDoc :: "env \<Rightarrow> store \<Rightarrow> string \<Rightarrow> string \<Rightarrow> obj \<Rightarrow> store option" where
  "updateDoc e s uid i payload =
     (case s (uid, i) of
        None \<Rightarrow> None
      | Some d \<Rightarrow> if storeAccepts e then Some (s((uid, i) \<mapsto> d ++ payload)) else None)"

record app_state =
  db :: bool
  user :: "string option"
  accounts :: "(string \<times> obj list) list"
  error :: "string option"
  showModal :: bool
  selectedAccount :: "obj option"
  dragItem :: "obj option"
  store :: store
  issued :: "store_op list"

text \<open>The success callback of \<^verbatim>\<open>onSnapshot\<close>; an exception of the comparator escapes it.\<close>

definition onSnapshot :: "(string \<times> obj) list \<Rightarrow> app_state \<Rightarrow> js_error + app_state" where
  "onSnapshot docs st =
     (case organizedAccounts docs of
        Inl err \<Rightarrow> Inl err
      | Inr organized \<Rightarrow> Inr (st\<lparr>accounts := organized\<rparr>))"

definition handleDragStart :: "obj \<Rightarrow> app_state \<Rightarrow> app_state" where
  "handleDragStart item st = st\<lparr>dragItem := Some item\<rparr>"

text \<open>
  \<^verbatim>\<open>handleDragEnd\<close>. Inside the \<^verbatim>\<open>try\<close>, \<^verbatim>\<open>doc(db, path, id)\<close> throws on a null
  \<^verbatim>\<open>db\<close> and on an id that is not a string, before any call of the store.
\<close>

definition handleDragEnd :: "env \<Rightarrow> string \<Rightarrow> app_state \<Rightarrow> app_state" where
  "handleDragEnd e stageName st =
     (case dragItem st of
        None \<Rightarrow> st
      | Some item \<Rightarrow>
          (case user st of
             None \<Rightarrow> st
           | Some uid \<Rightarrow>
               (case get item ''id'' of
                  Str i \<Rightarrow>
                    if db st then
                      (let payload = [''stage'' \<mapsto> Str stageName];
                           st1 = st\<lparr>issued := issued st @ [UpdateDoc uid i payload]\<rparr>
                       in case updateDoc e (store st) uid i payload of
                            Some s' \<Rightarrow> st1\<lparr>store := s', dragItem := None\<rparr>
                          | None \<Rightarrow> st1\<lparr>error := Some ''Failed to update account stage.''\<rparr>)
                    else st\<lparr>error := Some ''Failed to update account stage.''\<rparr>
                | _ \<Rightarrow> st\<lparr>error := Some ''Failed to update account stage.''\<rparr>)))"

text \<open>\<^verbatim>\<open>x ? Timestamp.fromDate(new Date(x)) : null\<close>; \<open>None\<close> when the conversion throws.\<close>

definition dateField :: "env \<Rightarrow> jsval \<Rightarrow> jsval option" where
  "dateField e x = (if truthy x then timestampFromDate e x else Some Null)"

text \<open>\<^verbatim>\<open>Number(x) || 0\<close>\<close>

definition numberOr0 :: "env \<Rightarrow> jsval \<Rightarrow> jsval" where
  "numberOr0 e x = js_or (Num (ToNumber e x)) (Num (Fin 0))"

text \<open>The object literal that \<^verbatim>\<open>handleAddAccount\<close> hands to \<^verbatim>\<open>addDoc\<close>.\<close>

definition addAccountPayload :: "env \<Rightarrow> obj \<Rightarrow> obj option" where
  "addAccountPayload e newAccount =
     (case dateField e (get newAccount ''expectedCloseDate'') of
        None \<Rightarrow> None
      | Some closeDate \<Rightarrow>
          (case dateField e (get newAccount ''nextFollowUpDate'') of
             None \<Rightarrow> None
           | Some followUp \<Rightarrow>
               Some (newAccount
                 (''stage'' \<mapsto> Str ''Business Intel'',
                  ''createdAt'' \<mapsto> Timestamp (timestampNow e),
                  ''notes'' \<mapsto> Arr [],
                  ''value'' \<mapsto> numberOr0 e (get newAccount ''value''),
                  ''monthlyValue'' \<mapsto> numberOr0 e (get newAccount ''monthlyValue''),
                  ''dealScore'' \<mapsto> Num (Fin 50),
                  ''expectedCloseDate'' \<mapsto> closeDate,
                  ''nextFollowUpDate'' \<mapsto> followUp))))"

definition handleAddAccount :: "env \<Rightarrow> obj \<Rightarrow> app_state \<Rightarrow> app_state" where
  "handleAddAccount e newAccount st =
     (case user st of
        None \<Rightarrow> st
      | Some uid \<Rightarrow>
          if \<not> db st then st
          else
            (case addAccountPayload e newAccount of
               None \<Rightarrow> st\<lparr>error := Some ''Failed to add new account.''\<rparr>
             | Some payload \<Rightarrow>
                 (let st1 = st\<lparr>issued := issued st @ [AddDoc uid payload]\<rparr>
                  in case addDoc e (store st) uid payload of
                       Some s' \<Rightarrow> st1\<lparr>store := s', showModal := False, selectedAccount := None\<rparr>
                     | None \<Rightarrow> st1\<lparr>error := Some ''Failed to add new account.''\<rparr>)))"

text \<open>The object literal that \<^verbatim>\<open>handleUpdateAccount\<close> hands to \<^verbatim>\<open>updateDoc\<close>.\<close>

definition updateAccountPayload :: "env \<Rightarrow> obj \<Rightarrow> obj option" where
  "updateAccountPayload e updatedAccount =
     (case dateField e (get updatedAccount ''expectedCloseDate'') of
        None \<Rightarrow> None
      | Some closeDate \<Rightarrow>
          (case dateField e (get updatedAccount ''nextFollowUpDate'') of
             None \<Rightarrow> None
           | Some followUp \<Rightarrow>
               Some (updatedAccount
                 (''value'' \<mapsto> numberOr0 e (get updatedAccount ''value''),
                  ''monthlyValue'' \<mapsto> numberOr0 e (get updatedAccount ''monthlyValue''),
                  ''expectedCloseDate'' \<mapsto> closeDate,
                  ''nextFollowUpDate'' \<mapsto> followUp))))"

definition handleUpdateAccount :: "env \<Rightarrow> obj \<Rightarrow> app_state \<Rightarrow> app_state" where
  "handleUpdateAccount e updatedAccount st =
     (case user st of
        None \<Rightarrow> st
      | Some uid \<Rightarrow>
          (case selectedAccount st of
             None \<Rightarrow> st
           | Some selected \<Rightarrow>
               if \<not> db st then st
               else
                 (case get selected ''id'' of
                    Str i \<Rightarrow>
                      (case updateAccountPayload e updatedAccount of
                         None \<Rightarrow> st\<lparr>error := Some ''Failed to update account.''\<rparr>
                       | Some payload \<Rightarrow>
                           (let st1 = st\<lparr>issued := issued st @ [UpdateDoc uid i payload]\<rparr>
                            in case updateDoc e (store st) uid i payload of
                                 Some s' \<Rightarrow>
                                   st1\<lparr>store := s', showModal := False, selectedAccount := None\<rparr>
                               | None \<Rightarrow> st1\<lparr>error := Some ''Failed to update account.''\<rparr>))
                  | _ \<Rightarrow> st\<lparr>error := Some ''Failed to update account.''\<rparr>)))"

section \<open>The Account Editor\<close>

text \<open>
  The state of one \<^verbatim>\<open>AccountForm\<close>: its \<^verbatim>\<open>account\<close> prop, the \<^verbatim>\<open>useState\<close> cells the
  handlers below touch, and the browser's console. An exception that no \<^verbatim>\<open>catch\<close> stops
  leaves an async handler as a rejected promise, which the browser reports on the console.
\<close>

datatype log_entry =
    ConsoleError string
  | UnhandledRejection js_error

record form_state =
  account :: "obj option"
  formData :: obj
  newNote :: string
  loadingAI :: bool
  dictationStatus :: string
  emailDraft :: string
  agenda :: string
  isAddingAccount :: bool
  console :: "log_entry list"

text \<open>
  \<^verbatim>\<open>callGeminiAPI\<close> returns the text of the first candidate, and \<^verbatim>\<open>null\<close> or
  \<^verbatim>\<open>undefined\<close> (here \<open>None\<close>) without an API key, when \<^verbatim>\<open>fetch\<close> or the decoding of
  the response body throws, and when the response holds no such text.
\<close>

definition callGeminiAPI :: "env \<Rightarrow> form_state \<Rightarrow> form_state \<times> string option" where
  "callGeminiAPI e f =
     (case apiReply e of
        NoApiKey \<Rightarrow>
          (f\<lparr>console := console f @ [ConsoleError ''Gemini API key is not configured.''],
             dictationStatus := ''API key not found. Please check environment variables.''\<rparr>,
           None)
      | FetchFailed \<Rightarrow>
          (f\<lparr>console := console f @ [ConsoleError ''Error calling Gemini API:'']\<rparr>, None)
      | BodyNotJson \<Rightarrow>
          (f\<lparr>console := console f @ [ConsoleError ''Error calling Gemini API:'']\<rparr>, None)
      | Reply t \<Rightarrow> (f, t))"

text \<open>
  \<^verbatim>\<open>recalculateDealScore\<close>. Past the two terminal stages, \<^verbatim>\<open>data.notes.map\<close> reads
  \<^verbatim>\<open>text\<close> and \<^verbatim>\<open>sentiment\<close> of every note, which throws unless \<^verbatim>\<open>notes\<close> is an array
  without \<^verbatim>\<open>null\<close> or \<^verbatim>\<open>undefined\<close> entries; the prompt built from them reaches the
  program again only through the endpoint's reply.
\<close>

definition recalculateDealScore ::
    "env \<Rightarrow> obj \<Rightarrow> form_state \<Rightarrow> form_state \<times> (js_error + jsnum)" where
  "recalculateDealScore e data f =
     (if get data ''stage'' = Str ''Closed Won'' then (f, Inr (Fin 100))
      else if get data ''stage'' = Str ''Closed Lost'' then (f, Inr (Fin 0))
      else
        (case get data ''notes'' of
           Arr ns \<Rightarrow>
             if list_ex (\<lambda>n. n = Null \<or> n = Undefined) ns then (f, Inl TypeError)
             else
               (let r = callGeminiAPI e f
                in (fst r,
                    Inr (case snd r of
                           None \<Rightarrow> Fin 50
                         | Some scoreText \<Rightarrow>
                             if scoreText = [] then Fin 50 else parseFloat scoreText)))
         | _ \<Rightarrow> (f, Inl TypeError)))"

text \<open>
  \<^verbatim>\<open>handleSave\<close>, with \<^verbatim>\<open>onSave\<close> as the board passes it:
  \<^verbatim>\<open>selectedAccount ? handleUpdateAccount : handleAddAccount\<close>. There is no \<^verbatim>\<open>catch\<close>:
  an exception of the score computation leaves the handler after the \<^verbatim>\<open>finally\<close>.
\<close>

definition handleSave ::
    "env \<Rightarrow> app_state \<Rightarrow> form_state \<Rightarrow> app_state \<times> form_state \<times> js_error option" where
  "handleSave e st f =
     (let f1 = f\<lparr>isAddingAccount := True\<rparr>;
          d0 = formData f;
          d1 = (if get d0 ''stage'' = Str ''Business Intel'' \<and> \<not> truthy (get d0 ''servicesNeeded'')
                then d0(''servicesNeeded'' \<mapsto> Str ''N/A'') else d0);
          r = recalculateDealScore e d1 f1
      in case snd r of
           Inl err \<Rightarrow> (st, (fst r)\<lparr>isAddingAccount := False\<rparr>, Some err)
         | Inr newDealScore \<Rightarrow>
             (let d2 = d1(''dealScore'' \<mapsto> Num newDealScore)
              in ((if selectedAccount st \<noteq> None then handleUpdateAccount e d2 st
                   else handleAddAccount e d2 st),
                  (fst r)\<lparr>isAddingAccount := False\<rparr>, None)))"

subsection \<open>Submitting the form\<close>

text \<open>
  \<^verbatim>\<open><form onSubmit={handleSave}>\<close>: the browser fires the submit event, and so calls
  \<^verbatim>\<open>handleSave\<close>, only when every control of the form is valid. The controls rendered
  with \<^verbatim>\<open>required\<close> are the four inputs below and, only while the stage is Closed Lost,
  the \<^verbatim>\<open>lostReason\<close> textarea. A control is empty when React renders the empty string
  into it.
\<close>

definition requiredControls :: "obj \<Rightarrow> string list" where
  "requiredControls fd =
     [''companyName'', ''servicesNeeded'', ''value'', ''monthlyValue'']
     @ (if get fd ''stage'' = Str ''Closed Lost'' then [''lostReason''] else [])"

definition controlIsEmpty :: "jsval \<Rightarrow> bool" where
  "controlIsEmpty v = (v = Str [] \<or> v = Undefined \<or> v = Null)"

definition checkValidity :: "env \<Rightarrow> obj \<Rightarrow> bool" where
  "checkValidity e fd =
     (list_all (\<lambda>c. \<not> controlIsEmpty (get fd c)) (requiredControls fd) \<and> typeConstraintsOk e)"

definition submitForm ::
    "env \<Rightarrow> app_state \<Rightarrow> form_state \<Rightarrow> app_state \<times> form_state \<times> js_error option" where
  "submitForm e st f =
     (if checkValidity e (formData f) then handleSave e st f else (st, f, None))"


subsection \<open>Appending a note\<close>

text \<open>
  The identifiers of the module that the body of \<^verbatim>\<open>AccountForm\<close> can name: the
  imports, the three top-level components, the props, and the constants declared in
  \<^verbatim>\<open>AccountForm\<close> itself. The constants \<^verbatim>\<open>db\<close>, \<^verbatim>\<open>appId\<close> and \<^verbatim>\<open>user\<close> are
  declared inside \<^verbatim>\<open>App\<close> and are not passed down, and the browser has no globals of
  these names.
\<close>

definition AccountForm_scope :: "string list" where
  "AccountForm_scope =
     [''React'', ''useState'', ''useEffect'', ''useRef'', ''initializeApp'', ''getAuth'',
      ''createUserWithEmailAndPassword'', ''signInWithEmailAndPassword'', ''signOut'',
      ''onAuthStateChanged'', ''updateProfile'', ''getFirestore'', ''collection'',
      ''onSnapshot'', ''doc'', ''updateDoc'', ''deleteDoc'', ''addDoc'', ''query'', ''where'',
      ''Timestamp'', ''marked'', ''App'', ''AuthComponent'', ''AccountForm'',
      ''account'', ''onSave'', ''onClose'', ''onDelete'',
      ''formData'', ''setFormData'', ''newNote'', ''setNewNote'', ''loadingAI'', ''setLoadingAI'',
      ''showDeleteConfirm'', ''setShowDeleteConfirm'', ''recognitionRef'', ''noteRecognitionRef'',
      ''isDictatingNotes'', ''setIsDictatingNotes'', ''isNoteProcessing'', ''setIsNoteProcessing'',
      ''dictationStatus'', ''setDictationStatus'', ''liveTranscript'', ''setLiveTranscript'',
      ''emailDraft'', ''setEmailDraft'', ''agenda'', ''setAgenda'',
      ''isAddingAccount'', ''setIsAddingAccount'',
      ''callGeminiAPI'', ''recalculateDealScore'', ''handleDraftEmail'', ''handleGenerateAgenda'',
      ''handleScanBusinessCard'', ''handleDictate'', ''handleStopDictate'', ''handleNoteDictate'',
      ''handleStopNoteDictate'', ''handleEditNote'', ''handleChange'', ''handleAddNote'',
      ''handleSave'']"

definition resolves :: "string \<Rightarrow> bool" where
  "resolves x = (x \<in> set AccountForm_scope)"

text \<open>\<^verbatim>\<open>[...formData.notes, note]\<close>: the spread needs an iterable.\<close>

definition spreadNotes :: "jsval \<Rightarrow> js_error + jsval list" where
  "spreadNotes v =
     (case v of
        Arr ns \<Rightarrow> Inr ns
      | Str s \<Rightarrow> Inr (map (\<lambda>c. Str [c]) s)
      | _ \<Rightarrow> Inl TypeError)"

text \<open>
  \<^verbatim>\<open>handleAddNote\<close>. The arguments of \<^verbatim>\<open>doc(db, `artifacts/${appId}/users/${user.uid}/accounts`, account.id)\<close>
  are evaluated from the left, and an identifier that does not resolve throws a
  \<^verbatim>\<open>ReferenceError\<close>. What follows is what the handler does once they resolve to the
  board's values; the handler has no \<^verbatim>\<open>try\<close>.
\<close>

definition handleAddNote ::
    "env \<Rightarrow> app_state \<Rightarrow> form_state \<Rightarrow> app_state \<times> form_state \<times> js_error option" where
  "handleAddNote e st f =
     (case account f of
        None \<Rightarrow> (st, f, None)
      | Some acc \<Rightarrow>
          if js_trim (newNote f) = [] then (st, f, None)
          else
            (case spreadNotes (get (formData f) ''notes'') of
               Inl err \<Rightarrow> (st, f, Some err)
             | Inr ns \<Rightarrow>
                 (let updatedNotes =
                        ns @ [Obj [(''text'', Str (newNote f)), (''timestamp'', Str (isoNow e))]]
                  in if \<not> resolves ''db'' then (st, f, Some (ReferenceError ''db''))
                     else if \<not> resolves ''appId'' then (st, f, Some (ReferenceError ''appId''))
                     else if \<not> resolves ''user'' then (st, f, Some (ReferenceError ''user''))
                     else
                       (case (user st, get acc ''id'') of
                          (Some uid, Str i) \<Rightarrow>
                            (let payload = [''notes'' \<mapsto> Arr updatedNotes];
                                 st1 = st\<lparr>issued := issued st @ [UpdateDoc uid i payload]\<rparr>
                             in case updateDoc e (store st) uid i payload of
                                  Some s' \<Rightarrow>
                                    (st1\<lparr>store := s'\<rparr>,
                                     f\<lparr>formData := (formData f)(''notes'' \<mapsto> Arr updatedNotes),
                                       newNote := []\<rparr>,
                                     None)
                                | None \<Rightarrow> (st1, f, Some FirestoreError))
                        | _ \<Rightarrow> (st, f, Some TypeError)))))"

subsection \<open>Scanning a business card\<close>

text \<open>\<^verbatim>\<open>jsonText.replace(/```json\n|\n```/g, '')\<close>\<close>

definition fenceOpen :: string where
  "fenceOpen = ''```json'' @ [CHR 0x0A]"

definition fenceClose :: string where
  "fenceClose = CHR 0x0A # ''```''"

fun strip_fences :: "string \<Rightarrow> string" where
  "strip_fences [] = []"
| "strip_fences (c # cs) =
     (if take 8 (c # cs) = fenceOpen then strip_fences (drop 7 cs)
      else if take 4 (c # cs) = fenceClose then strip_fences (drop 3 cs)
      else c # strip_fences cs)"

text \<open>
  \<^verbatim>\<open>JSON.parse\<close>, \<open>None\<close> for a \<^verbatim>\<open>SyntaxError\<close>. A JSON text starts, after white
  space, with the first character of a value; a string that does not is rejected here,
  and the others go to the environment's parser.
\<close>

definition isJsonSpace :: "char \<Rightarrow> bool" where
  "isJsonSpace c = (c \<in> set [CHR 0x09, CHR 0x0A, CHR 0x0D, CHR 0x20])"

definition JSON_parse :: "env \<Rightarrow> string \<Rightarrow> jsval option" where
  "JSON_parse e s =
     (case dropWhile isJsonSpace s of
        [] \<Rightarrow> None
      | c # _ \<Rightarrow>
          if c \<in> set ''{[-0123456789tfn'' \<or> c = CHR 0x22 then jsonParser e s else None)"

fun decimal :: "nat \<Rightarrow> string" where
  "decimal n =
     (if n < 10 then [char_of (48 + n)] else decimal (n div 10) @ [char_of (48 + n mod 10)])"

text \<open>The own enumerable properties that \<^verbatim>\<open>{...v}\<close> copies.\<close>

definition spreadProps :: "jsval \<Rightarrow> (string \<times> jsval) list" where
  "spreadProps v =
     (case v of
        Obj kvs \<Rightarrow> kvs
      | Arr xs \<Rightarrow> zip (map decimal [0..<length xs]) xs
      | Str s \<Rightarrow> zip (map decimal [0..<length s]) (map (\<lambda>c. Str [c]) s)
      | _ \<Rightarrow> [])"

definition assign :: "obj \<Rightarrow> (string \<times> jsval) list \<Rightarrow> obj" where
  "assign ob kvs = foldl (\<lambda>m kv. m(fst kv \<mapsto> snd kv)) ob kvs"

text \<open>Property read \<^verbatim>\<open>v.k\<close> on a parsed value, for a name that no prototype defines.\<close>

definition propOf :: "jsval \<Rightarrow> string \<Rightarrow> js_error + jsval" where
  "propOf v k =
     (case v of
        Undefined \<Rightarrow> Inl TypeError
      | Null \<Rightarrow> Inl TypeError
      | Obj kvs \<Rightarrow> Inr (get (assign Map.empty kvs) k)
      | _ \<Rightarrow> Inr Undefined)"

text \<open>The updater \<^verbatim>\<open>prev => ({...prev, ...parsedData, contactName: ..., ...})\<close>.\<close>

definition mergeCard :: "jsval \<Rightarrow> obj \<Rightarrow> js_error + obj" where
  "mergeCard parsedData prev =
     (case parsedData of
        Undefined \<Rightarrow> Inl TypeError
      | Null \<Rightarrow> Inl TypeError
      | _ \<Rightarrow>
          (let field = (\<lambda>k. js_or (case propOf parsedData k of Inr v \<Rightarrow> v | Inl _ \<Rightarrow> Undefined)
                               (Str []))
           in Inr ((assign prev (spreadProps parsedData))
                (''contactName'' \<mapsto> field ''contactName'',
                 ''contactEmail'' \<mapsto> field ''contactEmail'',
                 ''contactPhone'' \<mapsto> field ''contactPhone'',
                 ''contactTitle'' \<mapsto> field ''contactTitle'',
                 ''companyName'' \<mapsto> field ''companyName''))))"

text \<open>
  \<^verbatim>\<open>handleScanBusinessCard\<close>, from the chosen file to the end of \<^verbatim>\<open>reader.onload\<close>.
  \<^verbatim>\<open>JSON.parse\<close> is called outside any \<^verbatim>\<open>try\<close>: its exception ends the callback
  before the two resetting calls. An exception of the updater is thrown when React
  applies it, after the callback has finished.
\<close>

definition handleScanBusinessCard :: "env \<Rightarrow> bool \<Rightarrow> form_state \<Rightarrow> form_state \<times> js_error option" where
  "handleScanBusinessCard e fileChosen f =
     (if \<not> fileChosen then (f, None)
      else
        (let f1 = f\<lparr>loadingAI := True, dictationStatus := ''Scanning card...''\<rparr>;
             r = callGeminiAPI e f1;
             f2 = fst r
         in case snd r of
              None \<Rightarrow>
                (f2\<lparr>console := console f2 @ [ConsoleError ''AI extraction failed: No text in response.''],
                    loadingAI := False, dictationStatus := []\<rparr>, None)
            | Some jsonText \<Rightarrow>
                if jsonText = [] then
                  (f2\<lparr>console := console f2 @ [ConsoleError ''AI extraction failed: No text in response.''],
                      loadingAI := False, dictationStatus := []\<rparr>, None)
                else
                  (case JSON_parse e (strip_fences jsonText) of
                     None \<Rightarrow> (f2, Some SyntaxError)
                   | Some parsedData \<Rightarrow>
                       (case mergeCard parsedData (formData f2) of
                          Inl err \<Rightarrow> (f2\<lparr>loadingAI := False, dictationStatus := []\<rparr>, Some err)
                        | Inr merged \<Rightarrow>
                            (f2\<lparr>formData := merged, loadingAI := False, dictationStatus := []\<rparr>,
                             None)))))"

text \<open>The browser runs the handler and reports what escapes it.\<close>

definition reportUncaught :: "form_state \<times> js_error option \<Rightarrow> form_state" where
  "reportUncaught r =
     (case snd r of
        None \<Rightarrow> fst r
      | Some err \<Rightarrow> (fst r)\<lparr>console := console (fst r) @ [UnhandledRejection err]\<rparr>)"

definition scanBusinessCard :: "env \<Rightarrow> bool \<Rightarrow> form_state \<Rightarrow> form_state" where
  "scanBusinessCard e fileChosen f = reportUncaught (handleScanBusinessCard e fileChosen f)"


section \<open>Predicates of the statements\<close>

text \<open>An account without a follow-up date, and the date of one that has it.\<close>

definition noFollowUp :: "obj \<Rightarrow> bool" where
  "noFollowUp a = (get a ''nextFollowUpDate'' = Null \<or> get a ''nextFollowUpDate'' = Undefined)"

definition followUpAt :: "obj \<Rightarrow> int option" where
  "followUpAt a = (case get a ''nextFollowUpDate'' of Timestamp t \<Rightarrow> Some t | _ \<Rightarrow> None)"

text \<open>
  The range that the constructor of the store's \<^verbatim>\<open>Timestamp\<close> enforces: from year 1 to
  year 9999, in milliseconds.
\<close>

definition timestampInRange :: "int \<Rightarrow> bool" where
  "timestampInRange t = (- 62135596800000 \<le> t \<and> t < 253402300800000)"

definition followUpsInRange :: "(string \<times> obj) list \<Rightarrow> bool" where
  "followUpsInRange docs =
     list_all (\<lambda>d. case followUpAt (snd d) of None \<Rightarrow> True | Some t \<Rightarrow> timestampInRange t) docs"

text \<open>The invariant of the data model: the stage of a document is one of the nine.\<close>

definition stagesInFunnel :: "(string \<times> obj) list \<Rightarrow> bool" where
  "stagesInFunnel docs = list_all (\<lambda>d. get (snd d) ''stage'' \<in> set (map Str stageNames)) docs"

text \<open>
  A \<^verbatim>\<open>value\<close> that is a number or missing; the number that \<^verbatim>\<open>acc.value || 0\<close> then
  is; the amount it stands for; and a value whose amount is a whole number.
\<close>

definition valueIsNumber :: "jsval \<Rightarrow> bool" where
  "valueIsNumber v =
     (case v of
        Undefined \<Rightarrow> True
      | Null \<Rightarrow> True
      | Num n \<Rightarrow> True
      | _ \<Rightarrow> False)"

definition valueOr0 :: "obj \<Rightarrow> jsnum" where
  "valueOr0 acc =
     (case get acc ''value'' of
        Num n \<Rightarrow> if n = NaN then Fin 0 else n
      | _ \<Rightarrow> Fin 0)"

definition amount :: "obj \<Rightarrow> rat" where
  "amount acc = (case get acc ''value'' of Num (Fin r) \<Rightarrow> r | _ \<Rightarrow> 0)"

definition wholeAmount :: "obj \<Rightarrow> bool" where
  "wholeAmount acc =
     (case get acc ''value'' of
        Num (Fin r) \<Rightarrow> of_int \<lfloor>r\<rfloor> = r
      | Num PosInf \<Rightarrow> False
      | Num NegInf \<Rightarrow> False
      | _ \<Rightarrow> True)"

text \<open>The accounts that count for the pipeline, by the names of the three other stages.\<close>

definition inPipeline :: "obj \<Rightarrow> bool" where
  "inPipeline acc =
     (get acc ''stage'' \<notin> {Str ''Closed Won'', Str ''Closed Lost'', Str ''Business Intel''})"

text \<open>An integer from 0 to 100.\<close>

definition isScore :: "jsval \<Rightarrow> bool" where
  "isScore v =
     (case v of
        Num (Fin r) \<Rightarrow> of_int \<lfloor>r\<rfloor> = r \<and> 0 \<le> r \<and> r \<le> 100
      | _ \<Rightarrow> False)"

definition plainNumeral :: "string \<Rightarrow> bool" where
  "plainNumeral t = (t \<noteq> [] \<and> list_all isDigit t)"

definition payloadOf :: "store_op \<Rightarrow> obj" where
  "payloadOf op = (case op of AddDoc uid p \<Rightarrow> p | UpdateDoc uid i p \<Rightarrow> p)"

text \<open>The deal score that the store holds for a document.\<close>

definition persistedDealScore :: "app_state \<Rightarrow> string \<Rightarrow> string \<Rightarrow> jsval option" where
  "persistedDealScore st uid i = map_option (\<lambda>d. get d ''dealScore'') (store st (uid, i))"

section \<open>A concrete run\<close>

text \<open>
  One environment, one account of user \<open>u1\<close> and one editor, on which the theorems below
  are exercised. The endpoint of this environment answers \<open>150\<close> to every prompt.
\<close>

definition exampleEnv :: env where
  "exampleEnv =
     \<lparr>timestampNow = 1700000000000,
      isoNow = ''2023-11-14T22:13:20.000Z'',
      timestampFromDate = (\<lambda>v. Some (Timestamp 1767225600000)),
      objectToNumber = (\<lambda>v. NaN),
      plusNonNumeric = (\<lambda>a b. Undefined),
      apiReply = Reply (Some ''150''),
      jsonParser = (\<lambda>s. if s = ''{}'' then Some (Obj []) else None),
      storeAccepts = True,
      newDocId = ''a2'',
      typeConstraintsOk = True\<rparr>"

definition acmeDoc :: obj where
  "acmeDoc =
     [''companyName'' \<mapsto> Str ''Acme'',
      ''servicesNeeded'' \<mapsto> Str ''Chatbot'',
      ''stage'' \<mapsto> Str ''New Leads'',
      ''value'' \<mapsto> Num (Fin 1000),
      ''monthlyValue'' \<mapsto> Num (Fin 100),
      ''dealScore'' \<mapsto> Num (Fin 50),
      ''notes'' \<mapsto> Arr [],
      ''lostReason'' \<mapsto> Str [],
      ''expectedCloseDate'' \<mapsto> Null,
      ''nextFollowUpDate'' \<mapsto> Null,
      ''createdAt'' \<mapsto> Timestamp 1690000000000]"

definition acmeAccount :: obj where
  "acmeAccount = acmeDoc(''id'' \<mapsto> Str ''a1'')"

definition exampleState :: app_state where
  "exampleState =
     \<lparr>db = True,
      user = Some ''u1'',
      accounts = [],
      error = None,
      showModal = True,
      selectedAccount = Some acmeAccount,
      dragItem = Some acmeAccount,
      store = [(''u1'', ''a1'') \<mapsto> acmeDoc],
      issued = []\<rparr>"

text \<open>The editor opened on that account: the form holds what the user sees, as strings.\<close>

definition acmeFormData :: obj where
  "acmeFormData =
     [''companyName'' \<mapsto> Str ''Acme'',
      ''servicesNeeded'' \<mapsto> Str ''Chatbot'',
      ''value'' \<mapsto> Str ''1000'',
      ''monthlyValue'' \<mapsto> Str ''100'',
      ''expectedCloseDate'' \<mapsto> Str [],
      ''nextFollowUpDate'' \<mapsto> Str [],
      ''stage'' \<mapsto> Str ''New Leads'',
      ''notes'' \<mapsto> Arr [],
      ''lostReason'' \<mapsto> Str [],
      ''dealScore'' \<mapsto> Num (Fin 50)]"

definition exampleForm :: form_state where
  "exampleForm =
     \<lparr>account = Some acmeAccount,
      formData = acmeFormData,
      newNote = ''Called the client'',
      loadingAI = False,
      dictationStatus = [],
      emailDraft = [],
      agenda = [],
      isAddingAccount = False,
      console = []\<rparr>"


text \<open>
  A snapshot of four documents. The three New Leads arrive as: no follow-up date, a
  follow-up in March 2026, a follow-up in January 2026.
\<close>

definition bravoDoc :: obj where
  "bravoDoc =
     [''companyName'' \<mapsto> Str ''Bravo'',
      ''stage'' \<mapsto> Str ''New Leads'',
      ''value'' \<mapsto> Num (Fin 250),
      ''nextFollowUpDate'' \<mapsto> Timestamp 1772323200000]"

definition deltaDoc :: obj where
  "deltaDoc =
     [''companyName'' \<mapsto> Str ''Delta'',
      ''stage'' \<mapsto> Str ''New Leads'',
      ''value'' \<mapsto> Num (Fin 400),
      ''nextFollowUpDate'' \<mapsto> Timestamp 1767225600000]"

definition cargoDoc :: obj where
  "cargoDoc =
     [''companyName'' \<mapsto> Str ''Cargo'',
      ''stage'' \<mapsto> Str ''Closed Won'',
      ''value'' \<mapsto> Num (Fin 5000),
      ''nextFollowUpDate'' \<mapsto> Null]"

definition exampleDocs :: "(string \<times> obj) list" where
  "exampleDocs = [(''a1'', acmeDoc), (''b2'', bravoDoc), (''d4'', deltaDoc), (''c3'', cargoDoc)]"

definition newLeads :: "obj list" where
  "newLeads =
     [deltaDoc(''id'' \<mapsto> Str ''d4''), bravoDoc(''id'' \<mapsto> Str ''b2''),
      acmeDoc(''id'' \<mapsto> Str ''a1'')]"

definition exampleBoard :: "(string \<times> obj list) list" where
  "exampleBoard =
     [(''Business Intel'', []),
      (''New Leads'', newLeads),
      (''Qualified Opportunities'', []),
      (''Needs Analysis'', []),
      (''Proposal Sent'', []),
      (''Negotiation'', []),
      (''Closed Won'', [cargoDoc(''id'' \<mapsto> Str ''c3'')]),
      (''Closed Lost'', []),
      (''Nurturing'', [])]"

text \<open>A snapshot in which one document has a stage that is none of the nine.\<close>

definition archivedDocs :: "(string \<times> obj) list" where
  "archivedDocs = [(''a1'', acmeDoc), (''z9'', acmeDoc(''stage'' \<mapsto> Str ''Archived''))]"

definition archivedBoard :: "(string \<times> obj list) list" where
  "archivedBoard =
     [(''Business Intel'', []),
      (''New Leads'', [acmeDoc(''id'' \<mapsto> Str ''a1'')]),
      (''Qualified Opportunities'', []),
      (''Needs Analysis'', []),
      (''Proposal Sent'', []),
      (''Negotiation'', []),
      (''Closed Won'', []),
      (''Closed Lost'', []),
      (''Nurturing'', [])]"

text \<open>A board with two open deals, of the values \<open>2^53\<close> and 1.\<close>

definition bigBoard :: "(string \<times> obj list) list" where
  "bigBoard =
     [(''Negotiation'',
       [[''stage'' \<mapsto> Str ''Negotiation'', ''value'' \<mapsto> Num (Fin 9007199254740992)],
        [''stage'' \<mapsto> Str ''Negotiation'', ''value'' \<mapsto> Num (Fin 1)]])]"

text \<open>
  What the editor hands to \<^verbatim>\<open>handleAddAccount\<close> for a new account, here with a stage, a
  score and notes of the caller's, and the document that reaches the store.
\<close>

definition acmeNew :: obj where
  "acmeNew =
     [''companyName'' \<mapsto> Str ''Acme'',
      ''value'' \<mapsto> Str ''1000'',
      ''monthlyValue'' \<mapsto> Str ''100'',
      ''stage'' \<mapsto> Str ''Closed Won'',
      ''dealScore'' \<mapsto> Num (Fin 99),
      ''notes'' \<mapsto> Arr [Str ''x'']]"

definition acmeStored :: obj where
  "acmeStored =
     acmeNew
       (''stage'' \<mapsto> Str ''Business Intel'',
        ''createdAt'' \<mapsto> Timestamp 1700000000000,
        ''notes'' \<mapsto> Arr [],
        ''value'' \<mapsto> Num (Fin 1000),
        ''monthlyValue'' \<mapsto> Num (Fin 100),
        ''dealScore'' \<mapsto> Num (Fin 50),
        ''expectedCloseDate'' \<mapsto> Null,
        ''nextFollowUpDate'' \<mapsto> Null)"

text \<open>The payload of saving the editor above when the endpoint has answered \<open>score\<close>.\<close>

definition acmeUpdate :: "jsnum \<Rightarrow> obj" where
  "acmeUpdate score =
     acmeFormData
       (''dealScore'' \<mapsto> Num score,
        ''value'' \<mapsto> Num (Fin 1000),
        ''monthlyValue'' \<mapsto> Num (Fin 100),
        ''expectedCloseDate'' \<mapsto> Null,
        ''nextFollowUpDate'' \<mapsto> Null)"

text \<open>An endpoint that answers a card with prose instead of JSON.\<close>

definition unreadableEnv :: env where
  "unreadableEnv = exampleEnv\<lparr>apiReply := Reply (Some ''Sorry, I cannot read this card.'')\<rparr>"

text \<open>The editor on an account that was dropped on Closed Lost, with no reason entered.\<close>

definition lostForm :: form_state where
  "lostForm = exampleForm\<lparr>formData := acmeFormData(''stage'' \<mapsto> Str ''Closed Lost'')\<rparr>"

section \<open>The deal score of a terminal stage\<close>

text \<open>
  Claim C1. For an account being saved, the recomputed deal score is exactly 100 when its
  stage is Closed Won and exactly 0 when its stage is Closed Lost, whatever the external
  endpoint answers or fails to answer: the environment, and with it the reply, is arbitrary.
\<close>

theorem dealScore_terminal_stages:
  "(get data ''stage'' = Str ''Closed Won''
      \<longrightarrow> snd (recalculateDealScore e data f) = Inr (Fin 100))
   \<and> (get data ''stage'' = Str ''Closed Lost''
      \<longrightarrow> snd (recalculateDealScore e data f) = Inr (Fin 0))"
  by (simp add: recalculateDealScore_def)

theorem dealScore_terminal_stages_witness:
  "get (acmeFormData(''stage'' \<mapsto> Str ''Closed Won'')) ''stage'' = Str ''Closed Won''
   \<and> snd (recalculateDealScore exampleEnv (acmeFormData(''stage'' \<mapsto> Str ''Closed Won''))
          exampleForm) = Inr (Fin 100)
   \<and> get (acmeFormData(''stage'' \<mapsto> Str ''Closed Lost'')) ''stage'' = Str ''Closed Lost''
   \<and> snd (recalculateDealScore exampleEnv (acmeFormData(''stage'' \<mapsto> Str ''Closed Lost''))
          exampleForm) = Inr (Fin 0)"
  using dealScore_terminal_stages
          [of "acmeFormData(''stage'' \<mapsto> Str ''Closed Won'')" exampleEnv exampleForm]
        dealScore_terminal_stages
          [of "acmeFormData(''stage'' \<mapsto> Str ''Closed Lost'')" exampleEnv exampleForm]
  by (simp add: get_def)

section \<open>Partition of a snapshot by stage\<close>

lemma mset_insertBy: "mset (insertBy cmp x xs) = add_mset x (mset xs)"
  by (induction xs) auto

lemma mset_Array_sort: "mset (Array_sort cmp xs) = mset xs"
  unfolding Array_sort_def by (induction xs) (auto simp: mset_insertBy)

lemma set_insertBy: "set (insertBy cmp x xs) = insert x (set xs)"
  by (induction xs) auto

lemma sorted_insertBy:
  fixes k :: "'a \<Rightarrow> int"
  shows "sorted (map k xs) \<Longrightarrow> sorted (map k (insertBy (\<lambda>a b. k a - k b) x xs))"
  by (induction xs) (auto simp: set_insertBy)

lemma sorted_Array_sort:
  fixes k :: "'a \<Rightarrow> int"
  shows "sorted (map k (Array_sort (\<lambda>a b. k a - k b) xs))"
  unfolding Array_sort_def by (induction xs) (auto simp: sorted_insertBy)

lemma sortedAccounts_mset:
  "sortedAccounts n fetched = Inr b \<Longrightarrow>
   mset b = mset (filter (\<lambda>acc. get acc ''stage'' = Str n) fetched)"
  by (auto simp: sortedAccounts_def Let_def mset_Array_sort split: if_splits)

lemma sortedAccounts_sorted:
  "sortedAccounts n fetched = Inr b \<Longrightarrow> sorted (map dateMs b)"
proof -
  assume a: "sortedAccounts n fetched = Inr b"
  have c: "compareFollowUp = (\<lambda>a b. dateMs a - dateMs b)"
    by (simp add: compareFollowUp_def fun_eq_iff)
  show ?thesis
  proof (cases "length (filter (\<lambda>acc. get acc ''stage'' = Str n) fetched) < 2")
    case True
    with a have "b = filter (\<lambda>acc. get acc ''stage'' = Str n) fetched"
      by (simp add: sortedAccounts_def Let_def)
    with True have "length b < 2" by simp
    then show ?thesis by (cases b; cases "tl b") auto
  next
    case False
    with a have "b = Array_sort compareFollowUp (filter (\<lambda>acc. get acc ''stage'' = Str n) fetched)"
      by (simp add: sortedAccounts_def Let_def split: if_splits)
    then show ?thesis unfolding c by (simp add: sorted_Array_sort)
  qed
qed

lemma organize_buckets:
  "organize ns fetched = Inr board \<Longrightarrow> (n, b) \<in> set board \<Longrightarrow> sortedAccounts n fetched = Inr b"
  by (induction ns arbitrary: board) (auto split: sum.splits)

lemma organize_names: "organize ns fetched = Inr board \<Longrightarrow> map fst board = ns"
  by (induction ns arbitrary: board) (auto split: sum.splits)

lemma organize_mset:
  "organize ns fetched = Inr board \<Longrightarrow> distinct ns \<Longrightarrow>
   mset (flatAccounts board) = mset (filter (\<lambda>acc. get acc ''stage'' \<in> set (map Str ns)) fetched)"
proof (induction ns arbitrary: board)
  case Nil
  then show ?case by (simp add: flatAccounts_def)
next
  case (Cons n ns)
  from Cons.prems(1) obtain b rest where
    b: "sortedAccounts n fetched = Inr b" and
    rest: "organize ns fetched = Inr rest" and
    board: "board = (n, b) # rest"
    by (auto split: sum.splits)
  from Cons.prems(2) have d: "distinct ns" and nn: "n \<notin> set ns" by simp_all
  have IH: "mset (flatAccounts rest) = mset (filter (\<lambda>acc. get acc ''stage'' \<in> set (map Str ns)) fetched)"
    using Cons.IH [OF rest d] .
  have split: "mset (filter (\<lambda>acc. get acc ''stage'' \<in> set (map Str (n # ns))) fetched)
      = mset (filter (\<lambda>acc. get acc ''stage'' = Str n) fetched)
        + mset (filter (\<lambda>acc. get acc ''stage'' \<in> set (map Str ns)) fetched)"
    using nn by (induction fetched) auto
  show ?case
    using IH sortedAccounts_mset [OF b] split by (simp add: board flatAccounts_def)
qed

lemma distinct_stageNames: "distinct stageNames"
  by (simp add: stageNames_def funnelStages_def)

lemma get_fetched_stage:
  "acc \<in> set (fetchedAccounts docs) \<Longrightarrow> \<exists>d \<in> set docs. get acc ''stage'' = get (snd d) ''stage'' \<and> get acc ''nextFollowUpDate'' = get (snd d) ''nextFollowUpDate''"
  by (force simp: fetchedAccounts_def get_def)

lemma organized_example: "organizedAccounts exampleDocs = Inr exampleBoard"
  by (simp add: organizedAccounts_def exampleDocs_def exampleBoard_def newLeads_def
      stageNames_def funnelStages_def fetchedAccounts_def sortedAccounts_def get_def acmeDoc_def
      bravoDoc_def deltaDoc_def cargoDoc_def Array_sort_def compareFollowUp_def dateMs_def
      followUpDate_def sentinel_def)

lemma organized_archived: "organizedAccounts archivedDocs = Inr archivedBoard"
  by (simp add: organizedAccounts_def archivedDocs_def archivedBoard_def
      stageNames_def funnelStages_def fetchedAccounts_def sortedAccounts_def get_def acmeDoc_def)

text \<open>
  Claim C2, as amended. Partitioning the accounts of one snapshot into the nine stage
  buckets and merging the buckets again gives exactly the accounts whose stage is one of
  the nine names, each as often as it came: the buckets are those of the nine distinct
  stages in their order, and an account lies only in the bucket of its own stage. An
  account with any other stage, or with none, is in no bucket. When every document of the
  snapshot has one of the nine stages, the merged buckets are the accounts of the snapshot.
\<close>

theorem partition_by_stage_preserves_accounts:
  assumes "organizedAccounts docs = Inr board"
  shows "mset (flatAccounts board)
           = mset (filter (\<lambda>acc. get acc ''stage'' \<in> set (map Str stageNames))
                     (fetchedAccounts docs))
         \<and> map fst board = stageNames \<and> distinct (map fst board)
         \<and> (\<forall>n b acc. (n, b) \<in> set board \<and> acc \<in> set b \<longrightarrow> get acc ''stage'' = Str n)
         \<and> (stagesInFunnel docs \<longrightarrow> mset (flatAccounts board) = mset (fetchedAccounts docs))"
proof -
  from assms have org: "organize stageNames (fetchedAccounts docs) = Inr board"
    by (simp add: organizedAccounts_def)
  have m: "mset (flatAccounts board)
           = mset (filter (\<lambda>acc. get acc ''stage'' \<in> set (map Str stageNames))
                     (fetchedAccounts docs))"
    using organize_mset [OF org distinct_stageNames] .
  have n: "map fst board = stageNames" using organize_names [OF org] .
  have s: "\<forall>n b acc. (n, b) \<in> set board \<and> acc \<in> set b \<longrightarrow> get acc ''stage'' = Str n"
  proof (intro allI impI)
    fix n b acc assume h: "(n, b) \<in> set board \<and> acc \<in> set b"
    then have "sortedAccounts n (fetchedAccounts docs) = Inr b"
      using organize_buckets [OF org] by blast
    from sortedAccounts_mset [OF this]
    have "set b = set (filter (\<lambda>acc. get acc ''stage'' = Str n) (fetchedAccounts docs))"
      by (metis set_mset_mset)
    with h show "get acc ''stage'' = Str n" by auto
  qed
  have w: "mset (flatAccounts board) = mset (fetchedAccounts docs)" if inv: "stagesInFunnel docs"
  proof -
    have "filter (\<lambda>acc. get acc ''stage'' \<in> set (map Str stageNames)) (fetchedAccounts docs)
          = fetchedAccounts docs"
    proof (rule filter_True, intro ballI)
      fix acc assume "acc \<in> set (fetchedAccounts docs)"
      then obtain d where "d \<in> set docs" "get acc ''stage'' = get (snd d) ''stage''"
        using get_fetched_stage by blast
      with inv show "get acc ''stage'' \<in> set (map Str stageNames)"
        by (auto simp: stagesInFunnel_def list_all_iff)
    qed
    with m show ?thesis by (simp only:)
  qed
  from n have d: "distinct (map fst board)" using distinct_stageNames by simp
  show ?thesis using m n d s w by blast
qed

theorem partition_by_stage_preserves_accounts_witness:
  "organizedAccounts exampleDocs = Inr exampleBoard
   \<and> stagesInFunnel exampleDocs
   \<and> mset (flatAccounts exampleBoard) = mset (fetchedAccounts exampleDocs)
   \<and> map fst exampleBoard = stageNames
   \<and> (''New Leads'', newLeads) \<in> set exampleBoard
   \<and> bravoDoc(''id'' \<mapsto> Str ''b2'') \<in> set newLeads
   \<and> get (bravoDoc(''id'' \<mapsto> Str ''b2'')) ''stage'' = Str ''New Leads''"
proof -
  have s: "stagesInFunnel exampleDocs"
    by (simp add: stagesInFunnel_def exampleDocs_def acmeDoc_def bravoDoc_def deltaDoc_def
        cargoDoc_def get_def stageNames_def funnelStages_def)
  have m: "(''New Leads'', newLeads) \<in> set exampleBoard"
    by (simp add: exampleBoard_def)
  have b: "bravoDoc(''id'' \<mapsto> Str ''b2'') \<in> set newLeads"
    by (simp add: newLeads_def)
  note t = partition_by_stage_preserves_accounts [OF organized_example]
  from t have "\<forall>n b acc. (n, b) \<in> set exampleBoard \<and> acc \<in> set b \<longrightarrow> get acc ''stage'' = Str n"
    by blast
  from this m b have g: "get (bravoDoc(''id'' \<mapsto> Str ''b2'')) ''stage'' = Str ''New Leads''"
    by blast
  from t s have e: "mset (flatAccounts exampleBoard) = mset (fetchedAccounts exampleDocs)"
    by blast
  from t have n: "map fst exampleBoard = stageNames" by blast
  show ?thesis using organized_example s e n m b g by blast
qed

text \<open>
  Claim C2 as stated fails: of the two accounts of a snapshot in which one has the stage
  \<open>Archived\<close>, only the other is on the board.
\<close>

theorem archived_account_lost_counterexample:
  "organizedAccounts archivedDocs = Inr archivedBoard
   \<and> mset (flatAccounts archivedBoard) \<noteq> mset (fetchedAccounts archivedDocs)"
proof -
  have a: "length (flatAccounts archivedBoard) = 1"
    by (simp add: flatAccounts_def archivedBoard_def)
  have b: "length (fetchedAccounts archivedDocs) = 2"
    by (simp add: fetchedAccounts_def archivedDocs_def)
  have "mset (flatAccounts archivedBoard) \<noteq> mset (fetchedAccounts archivedDocs)"
  proof
    assume "mset (flatAccounts archivedBoard) = mset (fetchedAccounts archivedDocs)"
    then have "length (flatAccounts archivedBoard) = length (fetchedAccounts archivedDocs)"
      by (rule mset_eq_length)
    with a b show False by simp
  qed
  with organized_archived show ?thesis by blast
qed

section \<open>Order inside a bucket\<close>

lemma bucket_subset:
  assumes "organizedAccounts docs = Inr board" and "(n, b) \<in> set board"
  shows "set b \<subseteq> set (fetchedAccounts docs)"
proof -
  have "sortedAccounts n (fetchedAccounts docs) = Inr b"
    using assms organize_buckets by (simp add: organizedAccounts_def)
  from sortedAccounts_mset [OF this]
  have "set b = set (filter (\<lambda>acc. get acc ''stage'' = Str n) (fetchedAccounts docs))"
    by (metis set_mset_mset)
  then show ?thesis by auto
qed

lemma dateMs_noFollowUp: "noFollowUp a \<Longrightarrow> dateMs a = sentinel"
  by (auto simp: noFollowUp_def dateMs_def followUpDate_def)

lemma dateMs_followUpAt: "followUpAt a = Some t \<Longrightarrow> dateMs a = t"
  by (auto simp: followUpAt_def dateMs_def followUpDate_def split: jsval.splits)

lemma followUpAt_fetched:
  assumes "followUpsInRange docs" and "acc \<in> set (fetchedAccounts docs)" and "followUpAt acc = Some t"
  shows "timestampInRange t"
proof -
  from assms(2) obtain d where d: "d \<in> set docs"
      and eq: "get acc ''nextFollowUpDate'' = get (snd d) ''nextFollowUpDate''"
    using get_fetched_stage by blast
  from eq assms(3) have "followUpAt (snd d) = Some t" by (simp add: followUpAt_def)
  with assms(1) d show ?thesis by (auto simp: followUpsInRange_def list_all_iff)
qed

text \<open>
  Claim C3. In every bucket made from a snapshot, of two accounts that have a follow-up
  date the one placed first has the earlier date or the same, and every account without a
  follow-up date comes after every account that has one. The follow-up dates are
  \<^verbatim>\<open>Timestamp\<close>s of the store, which lie before the sentinel.
\<close>

theorem buckets_sorted_by_followUp:
  assumes "organizedAccounts docs = Inr board" and "followUpsInRange docs"
      and "(n, b) \<in> set board"
  shows "(\<forall>i j s t. i < j \<and> j < length b \<and> followUpAt (b ! i) = Some s
                  \<and> followUpAt (b ! j) = Some t \<longrightarrow> s \<le> t)
         \<and> (\<forall>i j. i < length b \<and> j < length b \<and> noFollowUp (b ! i) \<and> followUpAt (b ! j) \<noteq> None
               \<longrightarrow> j < i)"
proof -
  have sa: "sortedAccounts n (fetchedAccounts docs) = Inr b"
    using assms(1,3) organize_buckets by (simp add: organizedAccounts_def)
  have srt: "sorted (map dateMs b)" using sortedAccounts_sorted [OF sa] .
  have mono: "dateMs (b ! i) \<le> dateMs (b ! j)" if "i \<le> j" and "j < length b" for i j
  proof -
    from that srt have "map dateMs b ! i \<le> map dateMs b ! j"
      by (simp add: sorted_iff_nth_mono del: nth_map)
    with that show ?thesis by simp
  qed
  have dated: "\<forall>i j s t. i < j \<and> j < length b \<and> followUpAt (b ! i) = Some s
                  \<and> followUpAt (b ! j) = Some t \<longrightarrow> s \<le> t"
  proof (intro allI impI)
    fix i j s t
    assume h: "i < j \<and> j < length b \<and> followUpAt (b ! i) = Some s \<and> followUpAt (b ! j) = Some t"
    then have "dateMs (b ! i) \<le> dateMs (b ! j)" using mono [of i j] by simp
    moreover from h have "dateMs (b ! i) = s" and "dateMs (b ! j) = t"
      using dateMs_followUpAt by blast+
    ultimately show "s \<le> t" by simp
  qed
  have last: "\<forall>i j. i < length b \<and> j < length b \<and> noFollowUp (b ! i) \<and> followUpAt (b ! j) \<noteq> None
               \<longrightarrow> j < i"
  proof (intro allI impI)
    fix i j
    assume h: "i < length b \<and> j < length b \<and> noFollowUp (b ! i) \<and> followUpAt (b ! j) \<noteq> None"
    then obtain t where t: "followUpAt (b ! j) = Some t" by auto
    from h have "b ! j \<in> set (fetchedAccounts docs)"
      using bucket_subset [OF assms(1,3)] nth_mem by blast
    from followUpAt_fetched [OF assms(2) this t] have "t < sentinel"
      by (simp add: timestampInRange_def sentinel_def)
    moreover have "dateMs (b ! i) = sentinel" using h dateMs_noFollowUp by blast
    moreover have "dateMs (b ! j) = t" using t dateMs_followUpAt by blast
    ultimately have lt: "dateMs (b ! j) < dateMs (b ! i)" by simp
    show "j < i"
    proof (rule ccontr)
      assume "\<not> j < i"
      then have "i \<le> j" by simp
      with h have "dateMs (b ! i) \<le> dateMs (b ! j)" using mono [of i j] by simp
      with lt show False by simp
    qed
  qed
  show ?thesis using dated last by blast
qed

theorem buckets_sorted_by_followUp_witness:
  "organizedAccounts exampleDocs = Inr exampleBoard
   \<and> followUpsInRange exampleDocs
   \<and> (''New Leads'', newLeads) \<in> set exampleBoard
   \<and> length newLeads = 3
   \<and> followUpAt (newLeads ! 0) = Some 1767225600000
   \<and> followUpAt (newLeads ! 1) = Some 1772323200000
   \<and> (1767225600000 :: int) \<le> 1772323200000
   \<and> noFollowUp (newLeads ! 2)
   \<and> (1 :: nat) < 2"
proof -
  have r: "followUpsInRange exampleDocs"
    by (simp add: followUpsInRange_def exampleDocs_def acmeDoc_def bravoDoc_def deltaDoc_def
        cargoDoc_def get_def followUpAt_def timestampInRange_def)
  have m: "(''New Leads'', newLeads) \<in> set exampleBoard"
    by (simp add: exampleBoard_def)
  have l: "length newLeads = 3" by (simp add: newLeads_def)
  have f0: "followUpAt (newLeads ! 0) = Some 1767225600000"
    by (simp add: newLeads_def followUpAt_def deltaDoc_def get_def)
  have f1: "followUpAt (newLeads ! 1) = Some 1772323200000"
    by (simp add: newLeads_def followUpAt_def bravoDoc_def get_def)
  have n2: "noFollowUp (newLeads ! 2)"
    by (simp add: newLeads_def noFollowUp_def acmeDoc_def get_def)
  note t = buckets_sorted_by_followUp [OF organized_example r m]
  from t have "\<forall>i j s t. i < j \<and> j < length newLeads \<and> followUpAt (newLeads ! i) = Some s
                  \<and> followUpAt (newLeads ! j) = Some t \<longrightarrow> s \<le> t"
    by blast
  from this [rule_format, of 0 1 1767225600000 1772323200000] l f0 f1
  have le: "(1767225600000 :: int) \<le> 1772323200000" by simp
  from t have "\<forall>i j. i < length newLeads \<and> j < length newLeads \<and> noFollowUp (newLeads ! i)
                 \<and> followUpAt (newLeads ! j) \<noteq> None \<longrightarrow> j < i"
    by blast
  from this [rule_format, of 2 1] l n2 f1 have lt: "(1 :: nat) < 2" by simp
  show ?thesis using organized_example r m l f0 f1 le n2 lt by blast
qed

section \<open>The total pipeline value\<close>

lemma roundHalfEven_of_int: "roundHalfEven (of_int z) = z"
  by (simp add: roundHalfEven_def)

lemma ilog2_of_int:
  assumes "0 < a"
  shows "ilog2 (of_int a) = bitlen a - 1" and "(2::int) ^ nat (bitlen a - 1) \<le> a"
proof -
  from bitlen_bounds [OF assms] show b: "(2::int) ^ nat (bitlen a - 1) \<le> a" by simp
  from assms have ge: "1 \<le> bitlen a" by (simp add: bitlen_alt_def)
  have "rat_of_int (2 ^ nat (bitlen a - 1)) \<le> rat_of_int a"
    using b by (simp only: of_int_le_iff)
  then have "scale2 1 (bitlen a - 1) \<le> of_int a"
    using ge by (simp add: scale2_def)
  moreover have "bitlen 1 = 1" by (simp add: bitlen_alt_def)
  ultimately show "ilog2 (of_int a) = bitlen a - 1"
    by (simp add: ilog2_def Let_def)
qed

lemma toDouble_safe_nat:
  assumes "0 < a" and "a \<le> 2 ^ 53"
  shows "scale2 (of_int (roundHalfEven (scale2 (of_int a) (- max (ilog2 (of_int a) - 52) (- 1074)))))
           (max (ilog2 (of_int a) - 52) (- 1074)) = of_int a"
proof -
  define b where "b = bitlen a - 1"
  from assms(1) have b0: "0 \<le> b" by (simp add: b_def bitlen_alt_def)
  have lo: "(2::int) ^ nat b \<le> a" using ilog2_of_int(2) [OF assms(1)] by (simp add: b_def)
  have p: "(2::int) ^ nat b \<le> 2 ^ 53" using lo assms(2) by (rule order_trans)
  have "nat b \<le> 53" by (rule power_le_imp_le_exp [OF _ p]) simp
  with b0 have b53: "b \<le> 53" by simp
  have il: "ilog2 (of_int a) = b" using ilog2_of_int(1) [OF assms(1)] by (simp add: b_def)
  have ex: "max (ilog2 (of_int a) - 52) (- 1074) = b - 52" using b0 by (simp add: il)
  obtain z where s: "scale2 (rat_of_int a) (- (b - 52)) = rat_of_int z"
    and t: "scale2 (rat_of_int z) (b - 52) = rat_of_int a"
  proof (cases "b \<le> 52")
    case True
    have "scale2 (rat_of_int a) (- (b - 52)) = rat_of_int (a * 2 ^ nat (52 - b))"
      using True by (simp add: scale2_def)
    moreover have "scale2 (rat_of_int (a * 2 ^ nat (52 - b))) (b - 52) = rat_of_int a"
    proof (cases "b = 52")
      case True
      then show ?thesis by (simp add: scale2_def)
    next
      case False
      with True have "b - 52 < 0" and "nat (52 - b) = nat (- (b - 52))" by simp_all
      then show ?thesis by (simp add: scale2_def)
    qed
    ultimately show ?thesis using that by blast
  next
    case False
    with b53 have b: "b = 53" by simp
    from lo b assms(2) have a: "a = 2 ^ 53" by simp
    have "scale2 (rat_of_int a) (- (b - 52)) = rat_of_int (2 ^ 52)"
      unfolding a b by (simp add: scale2_def)
    moreover have "scale2 (rat_of_int (2 ^ 52)) (b - 52) = rat_of_int a"
      unfolding a b by (simp add: scale2_def)
    ultimately show ?thesis using that by blast
  qed
  show ?thesis
    unfolding ex by (simp only: s t roundHalfEven_of_int)
qed

lemma toDouble_safe_pos:
  assumes "0 < a" and "a \<le> 2 ^ 53"
  shows "toDouble (of_int a) = Fin (of_int a)" and "toDouble (- of_int a) = Fin (- of_int a)"
proof -
  have v: "scale2 (of_int (roundHalfEven (scale2 (of_int a) (- max (ilog2 (of_int a) - 52) (- 1074)))))
           (max (ilog2 (of_int a) - 52) (- 1074)) = of_int a"
    using toDouble_safe_nat [OF assms] .
  have "rat_of_int a \<le> rat_of_int (2 ^ 53)" using assms(2) by (simp only: of_int_le_iff)
  also have "\<dots> < 2 ^ 1024" by simp
  finally have small: "\<not> scale2 1 1024 \<le> rat_of_int a" by (simp add: scale2_def)
  have nz: "rat_of_int a \<noteq> 0" and pos: "0 < rat_of_int a"
    and abs: "\<bar>rat_of_int a\<bar> = rat_of_int a"
    and nz': "- rat_of_int a \<noteq> 0" and npos: "\<not> 0 < - rat_of_int a"
    and abs': "\<bar>- rat_of_int a\<bar> = rat_of_int a"
    using assms(1) by simp_all
  show "toDouble (of_int a) = Fin (of_int a)"
    unfolding toDouble_def Let_def by (simp only: nz pos abs v small if_False if_True)
  show "toDouble (- of_int a) = Fin (- of_int a)"
    unfolding toDouble_def Let_def by (simp only: nz' npos abs' v small if_False if_True)
qed

text \<open>A whole number of absolute value up to \<open>2^53\<close> is a double.\<close>

lemma toDouble_safe_integer:
  assumes "\<bar>n\<bar> \<le> 2 ^ 53"
  shows "toDouble (of_int n) = Fin (of_int n)"
proof -
  consider "n = 0" | "0 < n" | "n < 0" by linarith
  then show ?thesis
  proof cases
    case 1
    then show ?thesis by (simp add: toDouble_def)
  next
    case 2
    with assms have "n \<le> 2 ^ 53" by simp
    from toDouble_safe_pos(1) [OF 2 this] show ?thesis .
  next
    case 3
    then have p: "0 < - n" by simp
    from 3 assms have "- n \<le> 2 ^ 53" by simp
    from toDouble_safe_pos(2) [OF p this] show ?thesis by simp
  qed
qed

lemma add_safe_integers:
  assumes "\<bar>m\<bar> \<le> 2 ^ 53" and "\<bar>n\<bar> \<le> 2 ^ 53" and "\<bar>m + n\<bar> \<le> 2 ^ 53"
  shows "add (Fin (of_int m)) (Fin (of_int n)) = Fin (of_int (m + n))"
  using toDouble_safe_integer [OF assms(1)] toDouble_safe_integer [OF assms(2)]
        toDouble_safe_integer [OF assms(3)]
  by (simp add: add_def)

text \<open>The double nearest to \<open>2^53 + 1\<close> is \<open>2^53\<close>.\<close>

lemma toDouble_big: "toDouble 9007199254740993 = Fin 9007199254740992"
proof -
  have q: "quotient_of 9007199254740993 = (9007199254740993, 1)"
    using quotient_of_int [of 9007199254740993] by simp
  have b: "bitlen 9007199254740993 = 54"
    by (simp add: bitlen_alt_def floor_log_eq_powr_iff powr_realpow')
  have o: "bitlen 1 = 1" by (simp add: bitlen_alt_def)
  have i: "ilog2 9007199254740993 = 53"
    by (simp add: ilog2_def q b o scale2_def)
  have f: "\<lfloor>9007199254740993 / 2 :: rat\<rfloor> = 4503599627370496"
    by (simp add: floor_eq_iff)
  have r: "roundHalfEven (9007199254740993 / 2) = 4503599627370496"
    by (simp add: roundHalfEven_def Let_def f)
  show ?thesis
    by (simp add: toDouble_def i scale2_def r)
qed

lemma add_big: "add (Fin 9007199254740992) (Fin 1) = Fin 9007199254740992"
  using toDouble_safe_integer [of 9007199254740992] toDouble_safe_integer [of 1] toDouble_big
  by (simp add: add_def)

lemma or0_value:
  "valueIsNumber (get acc ''value'') \<Longrightarrow>
   js_or (get acc ''value'') (Num (Fin 0)) = Num (valueOr0 acc)"
  by (auto simp: valueIsNumber_def valueOr0_def js_or_def split: jsval.splits)

lemma plus_numbers: "js_plus e (Num x) (Num y) = Num (add x y)"
  by (simp add: js_plus_def ToNumber_def)

lemma foldl_values:
  "list_all (\<lambda>acc. valueIsNumber (get acc ''value'')) xs \<Longrightarrow>
   foldl (\<lambda>sum acc. js_plus e sum (js_or (get acc ''value'') (Num (Fin 0)))) (Num s) xs
   = Num (foldl add s (map valueOr0 xs))"
  by (induction xs arbitrary: s) (simp_all add: or0_value plus_numbers)

lemma whole_amount:
  assumes "wholeAmount acc" and "valueIsNumber (get acc ''value'')"
  shows "valueOr0 acc = Fin (of_int \<lfloor>amount acc\<rfloor>)" and "amount acc = of_int \<lfloor>amount acc\<rfloor>"
  using assms
  by (auto simp: wholeAmount_def valueIsNumber_def valueOr0_def amount_def
      split: jsval.splits jsnum.splits)

lemma sum_abs_nonneg: "0 \<le> (\<Sum>acc\<leftarrow>xs. \<bar>amount acc\<bar>)"
  by (induction xs) simp_all

lemma foldl_add_whole:
  assumes "list_all wholeAmount xs"
      and "list_all (\<lambda>acc. valueIsNumber (get acc ''value'')) xs"
      and "\<bar>rat_of_int s\<bar> + (\<Sum>acc\<leftarrow>xs. \<bar>amount acc\<bar>) \<le> 2 ^ 53"
  shows "foldl add (Fin (of_int s)) (map valueOr0 xs) = Fin (of_int s + (\<Sum>acc\<leftarrow>xs. amount acc))"
  using assms
proof (induction xs arbitrary: s)
  case Nil
  then show ?case by simp
next
  case (Cons x xs)
  define m where "m = \<lfloor>amount x\<rfloor>"
  from Cons.prems(1,2) have v: "valueOr0 x = Fin (of_int m)" and a: "amount x = of_int m"
    using whole_amount [of x] by (simp_all add: m_def)
  have rest: "0 \<le> (\<Sum>acc\<leftarrow>xs. \<bar>amount acc\<bar>)" by (rule sum_abs_nonneg)
  from Cons.prems(3) have bound: "\<bar>rat_of_int s\<bar> + \<bar>rat_of_int m\<bar> + (\<Sum>acc\<leftarrow>xs. \<bar>amount acc\<bar>) \<le> 2 ^ 53"
    by (simp add: a)
  have tri: "\<bar>rat_of_int (s + m)\<bar> \<le> \<bar>rat_of_int s\<bar> + \<bar>rat_of_int m\<bar>" by simp
  from bound rest have "rat_of_int \<bar>s\<bar> \<le> rat_of_int (2 ^ 53)"
    and "rat_of_int \<bar>m\<bar> \<le> rat_of_int (2 ^ 53)"
    and "rat_of_int \<bar>s + m\<bar> \<le> rat_of_int (2 ^ 53)"
    using tri by simp_all
  then have s53: "\<bar>s\<bar> \<le> 2 ^ 53" and m53: "\<bar>m\<bar> \<le> 2 ^ 53" and sm53: "\<bar>s + m\<bar> \<le> 2 ^ 53"
    by (simp_all only: of_int_le_iff)
  have step: "add (Fin (of_int s)) (Fin (of_int m)) = Fin (of_int (s + m))"
    using add_safe_integers [OF s53 m53 sm53] .
  have next_bound: "\<bar>rat_of_int (s + m)\<bar> + (\<Sum>acc\<leftarrow>xs. \<bar>amount acc\<bar>) \<le> 2 ^ 53"
    using bound tri by linarith
  from Cons.prems(1,2) have xs: "list_all wholeAmount xs"
    "list_all (\<lambda>acc. valueIsNumber (get acc ''value'')) xs" by simp_all
  have "foldl add (Fin (of_int (s + m))) (map valueOr0 xs)
        = Fin (of_int (s + m) + (\<Sum>acc\<leftarrow>xs. amount acc))"
    using Cons.IH [OF xs next_bound] .
  then show ?case by (simp add: v step a)
qed

text \<open>
  Claim C4, as amended. For accounts whose \<^verbatim>\<open>value\<close> is a number or missing, the
  displayed total pipeline value is the sum of \<^verbatim>\<open>value\<close>, a missing value or \<^verbatim>\<open>NaN\<close>
  counting as 0, over exactly the accounts whose stage is none of Closed Won, Closed Lost
  and Business Intel, added in the order of the board in double precision. It is the exact
  sum when the values are whole numbers whose absolute values add up to at most \<open>2^53\<close>.
\<close>

theorem totalPipelineValue_sum:
  assumes "list_all (\<lambda>acc. valueIsNumber (get acc ''value'')) (flatAccounts accs)"
  shows "totalPipelineValue e accs
           = Num (foldl add (Fin 0) (map valueOr0 (filter inPipeline (flatAccounts accs))))
         \<and> (list_all wholeAmount (filter inPipeline (flatAccounts accs))
              \<and> (\<Sum>acc\<leftarrow>filter inPipeline (flatAccounts accs). \<bar>amount acc\<bar>) \<le> 2 ^ 53
            \<longrightarrow> totalPipelineValue e accs
                  = Num (Fin (\<Sum>acc\<leftarrow>filter inPipeline (flatAccounts accs). amount acc)))"
proof -
  have f: "filter isActive (flatAccounts accs) = filter inPipeline (flatAccounts accs)"
    by (rule filter_cong) (auto simp: isActive_def inPipeline_def)
  have vs: "list_all (\<lambda>acc. valueIsNumber (get acc ''value'')) (filter inPipeline (flatAccounts accs))"
    using assms by (auto simp: list_all_iff)
  have total: "totalPipelineValue e accs
           = Num (foldl add (Fin 0) (map valueOr0 (filter inPipeline (flatAccounts accs))))"
    using foldl_values [OF vs, of e "Fin 0"] by (simp add: totalPipelineValue_def f)
  have exact: "totalPipelineValue e accs
                  = Num (Fin (\<Sum>acc\<leftarrow>filter inPipeline (flatAccounts accs). amount acc))"
    if w: "list_all wholeAmount (filter inPipeline (flatAccounts accs))"
    and b: "(\<Sum>acc\<leftarrow>filter inPipeline (flatAccounts accs). \<bar>amount acc\<bar>) \<le> 2 ^ 53"
  proof -
    from b have "\<bar>rat_of_int 0\<bar> + (\<Sum>acc\<leftarrow>filter inPipeline (flatAccounts accs). \<bar>amount acc\<bar>) \<le> 2 ^ 53"
      by simp
    from foldl_add_whole [OF w vs this] show ?thesis by (simp add: total)
  qed
  show ?thesis using total exact by blast
qed

theorem totalPipelineValue_sum_witness:
  "list_all (\<lambda>acc. valueIsNumber (get acc ''value'')) (flatAccounts exampleBoard)
   \<and> list_all wholeAmount (filter inPipeline (flatAccounts exampleBoard))
   \<and> (\<Sum>acc\<leftarrow>filter inPipeline (flatAccounts exampleBoard). \<bar>amount acc\<bar>) \<le> 2 ^ 53
   \<and> (\<Sum>acc\<leftarrow>filter inPipeline (flatAccounts exampleBoard). amount acc) = 1650
   \<and> totalPipelineValue exampleEnv exampleBoard = Num (Fin 1650)"
proof -
  have fl: "filter inPipeline (flatAccounts exampleBoard) = newLeads"
    by (simp add: flatAccounts_def exampleBoard_def newLeads_def inPipeline_def acmeDoc_def
        bravoDoc_def deltaDoc_def cargoDoc_def get_def)
  have k: "list_all (\<lambda>acc. valueIsNumber (get acc ''value'')) (flatAccounts exampleBoard)"
    by (simp add: flatAccounts_def exampleBoard_def newLeads_def acmeDoc_def bravoDoc_def
        deltaDoc_def cargoDoc_def get_def valueIsNumber_def)
  have w: "list_all wholeAmount newLeads"
    by (simp add: newLeads_def wholeAmount_def acmeDoc_def bravoDoc_def deltaDoc_def get_def)
  have a: "map amount newLeads = [400, 250, 1000]"
    by (simp add: newLeads_def amount_def acmeDoc_def bravoDoc_def deltaDoc_def get_def)
  have "map (\<lambda>acc. \<bar>amount acc\<bar>) newLeads = map abs (map amount newLeads)"
    by (simp add: comp_def)
  then have b: "(\<Sum>acc\<leftarrow>newLeads. \<bar>amount acc\<bar>) \<le> 2 ^ 53"
    by (simp only: a) simp
  have s: "(\<Sum>acc\<leftarrow>newLeads. amount acc) = 1650" by (simp add: a)
  note t = totalPipelineValue_sum [OF k, of exampleEnv, unfolded fl]
  from t w b have "totalPipelineValue exampleEnv exampleBoard
      = Num (Fin (\<Sum>acc\<leftarrow>newLeads. amount acc))"
    by blast
  then have tot: "totalPipelineValue exampleEnv exampleBoard = Num (Fin 1650)"
    by (simp only: s)
  show ?thesis unfolding fl using k w b s tot by blast
qed

text \<open>
  Claim C4 as stated fails: for two open deals of the values \<open>2^53\<close> and 1 the displayed
  total is \<open>2^53\<close>, which is not their sum.
\<close>

theorem total_not_exact_counterexample:
  "totalPipelineValue exampleEnv bigBoard = Num (Fin 9007199254740992)
   \<and> sum_list (map amount (filter inPipeline (flatAccounts bigBoard))) = 9007199254740993"
proof -
  have k: "list_all (\<lambda>acc. valueIsNumber (get acc ''value'')) (flatAccounts bigBoard)"
    by (simp add: flatAccounts_def bigBoard_def get_def valueIsNumber_def)
  have v: "map valueOr0 (filter isActive (flatAccounts bigBoard))
           = [Fin 9007199254740992, Fin 1]"
    by (simp add: flatAccounts_def bigBoard_def isActive_def valueOr0_def get_def)
  have z: "add (Fin 0) (Fin 9007199254740992) = Fin 9007199254740992"
    using add_safe_integers [of 0 9007199254740992] by simp
  have "totalPipelineValue exampleEnv bigBoard
        = Num (foldl add (Fin 0) (map valueOr0 (filter isActive (flatAccounts bigBoard))))"
    using foldl_values [of "filter isActive (flatAccounts bigBoard)" exampleEnv "Fin 0"] k
    by (simp add: totalPipelineValue_def list_all_iff)
  then have t: "totalPipelineValue exampleEnv bigBoard = Num (Fin 9007199254740992)"
    by (simp add: v z add_big)
  have "sum_list (map amount (filter inPipeline (flatAccounts bigBoard))) = 9007199254740993"
    by (simp add: flatAccounts_def bigBoard_def inPipeline_def amount_def get_def)
  with t show ?thesis by blast
qed

section \<open>A lost deal needs its reason\<close>

text \<open>
  Claim C5. Submitting the form with the stage Closed Lost and an empty reason for losing
  is stopped by the validation of the form before \<^verbatim>\<open>handleSave\<close> runs: nothing changes,
  and no create or update reaches the store.
\<close>

theorem closedLost_without_reason_rejected:
  assumes "get (formData f) ''stage'' = Str ''Closed Lost''"
      and "controlIsEmpty (get (formData f) ''lostReason'')"
  shows "submitForm e st f = (st, f, None)
         \<and> issued (fst (submitForm e st f)) = issued st
         \<and> store (fst (submitForm e st f)) = store st"
  using assms by (simp add: submitForm_def checkValidity_def requiredControls_def)

theorem closedLost_without_reason_rejected_witness:
  "get (formData lostForm) ''stage'' = Str ''Closed Lost''
   \<and> get (formData lostForm) ''lostReason'' = Str []
   \<and> controlIsEmpty (get (formData lostForm) ''lostReason'')
   \<and> submitForm exampleEnv exampleState lostForm = (exampleState, lostForm, None)"
proof -
  have a: "get (formData lostForm) ''stage'' = Str ''Closed Lost''"
    by (simp add: lostForm_def get_def)
  have b: "get (formData lostForm) ''lostReason'' = Str []"
    by (simp add: lostForm_def acmeFormData_def get_def)
  have c: "controlIsEmpty (get (formData lostForm) ''lostReason'')"
    by (simp add: b controlIsEmpty_def)
  from closedLost_without_reason_rejected [OF a c, of exampleEnv exampleState]
  show ?thesis using a b c by simp
qed

section \<open>Creating an account\<close>

lemma numberOr0_eq:
  "numberOr0 e x =
     (if ToNumber e x \<in> {NaN, Fin 0} then Num (Fin 0) else Num (ToNumber e x))"
  by (simp add: numberOr0_def js_or_def)

lemma addAccountPayload_fields:
  assumes "addAccountPayload e newAccount = Some p"
  shows "get p ''stage'' = Str ''Business Intel''"
    and "get p ''dealScore'' = Num (Fin 50)"
    and "get p ''notes'' = Arr []"
    and "get p ''createdAt'' = Timestamp (timestampNow e)"
    and "get p ''value'' = numberOr0 e (get newAccount ''value'')"
    and "get p ''monthlyValue'' = numberOr0 e (get newAccount ''monthlyValue'')"
proof -
  from assms obtain closeDate followUp where
    p: "p = newAccount
         (''stage'' \<mapsto> Str ''Business Intel'',
          ''createdAt'' \<mapsto> Timestamp (timestampNow e),
          ''notes'' \<mapsto> Arr [],
          ''value'' \<mapsto> numberOr0 e (get newAccount ''value''),
          ''monthlyValue'' \<mapsto> numberOr0 e (get newAccount ''monthlyValue''),
          ''dealScore'' \<mapsto> Num (Fin 50),
          ''expectedCloseDate'' \<mapsto> closeDate,
          ''nextFollowUpDate'' \<mapsto> followUp)"
    unfolding addAccountPayload_def by (simp split: option.splits) blast
  show "get p ''stage'' = Str ''Business Intel''" unfolding p get_def by simp
  show "get p ''dealScore'' = Num (Fin 50)" unfolding p get_def by simp
  show "get p ''notes'' = Arr []" unfolding p get_def by simp
  show "get p ''createdAt'' = Timestamp (timestampNow e)" unfolding p get_def by simp
  show "get p ''value'' = numberOr0 e (get newAccount ''value'')" unfolding p get_def by simp
  show "get p ''monthlyValue'' = numberOr0 e (get newAccount ''monthlyValue'')"
    unfolding p get_def by simp
qed

lemma handleAddAccount_writes:
  assumes "user st = Some uid" and "db st" and "storeAccepts e"
      and "addAccountPayload e newAccount = Some p"
  shows "issued (handleAddAccount e newAccount st) = issued st @ [AddDoc uid p]"
    and "store (handleAddAccount e newAccount st) (uid, newDocId e) = Some p"
  using assms by (simp_all add: handleAddAccount_def addDoc_def Let_def)

lemma acmeStored_payload: "addAccountPayload exampleEnv acmeNew = Some acmeStored"
  by (simp add: addAccountPayload_def dateField_def acmeNew_def acmeStored_def get_def
      exampleEnv_def numberOr0_def js_or_def ToNumber_def StringToNumber_def js_trim_def
      nonDecimalLiteral_def signedDecimal_def unsignedDecimal_def isWhiteSpace_def isDigit_def
      digitsVal_def digitVal_def exponentPart_def scale10_def Let_def)

text \<open>
  Claim C8. The document that a creation stores has the stage Business Intel, the deal
  score 50, no notes, \<^verbatim>\<open>value\<close> and \<^verbatim>\<open>monthlyValue\<close> as numbers with 0 in place of
  \<^verbatim>\<open>NaN\<close>, and its time of creation, whatever stage, score and notes the caller supplied.
\<close>

theorem handleAddAccount_defaults:
  assumes "user st = Some uid" and "db st" and "storeAccepts e"
      and "addAccountPayload e newAccount = Some p"
  shows "issued (handleAddAccount e newAccount st) = issued st @ [AddDoc uid p]
         \<and> store (handleAddAccount e newAccount st) (uid, newDocId e) = Some p
         \<and> get p ''stage'' = Str ''Business Intel''
         \<and> get p ''dealScore'' = Num (Fin 50)
         \<and> get p ''notes'' = Arr []
         \<and> get p ''createdAt'' = Timestamp (timestampNow e)
         \<and> get p ''value'' =
             (if ToNumber e (get newAccount ''value'') \<in> {NaN, Fin 0} then Num (Fin 0)
              else Num (ToNumber e (get newAccount ''value'')))
         \<and> get p ''monthlyValue'' =
             (if ToNumber e (get newAccount ''monthlyValue'') \<in> {NaN, Fin 0} then Num (Fin 0)
              else Num (ToNumber e (get newAccount ''monthlyValue'')))"
  using handleAddAccount_writes [OF assms] addAccountPayload_fields [OF assms(4)]
  by (simp only: numberOr0_eq simp_thms)

theorem handleAddAccount_defaults_witness:
  "user exampleState = Some ''u1'' \<and> db exampleState \<and> storeAccepts exampleEnv
   \<and> addAccountPayload exampleEnv acmeNew = Some acmeStored
   \<and> issued (handleAddAccount exampleEnv acmeNew exampleState) = [AddDoc ''u1'' acmeStored]
   \<and> store (handleAddAccount exampleEnv acmeNew exampleState) (''u1'', ''a2'') = Some acmeStored
   \<and> get acmeStored ''stage'' = Str ''Business Intel''
   \<and> get acmeStored ''dealScore'' = Num (Fin 50)
   \<and> get acmeStored ''notes'' = Arr []
   \<and> get acmeStored ''value'' = Num (Fin 1000)
   \<and> get acmeStored ''monthlyValue'' = Num (Fin 100)"
proof -
  have u: "user exampleState = Some ''u1''" and d: "db exampleState"
    by (simp_all add: exampleState_def)
  have a: "storeAccepts exampleEnv" by (simp add: exampleEnv_def)
  have i: "issued exampleState = []" by (simp add: exampleState_def)
  have n: "newDocId exampleEnv = ''a2''" by (simp add: exampleEnv_def)
  have v: "get acmeStored ''value'' = Num (Fin 1000)"
    and mv: "get acmeStored ''monthlyValue'' = Num (Fin 100)"
    by (simp_all add: acmeStored_def get_def)
  from handleAddAccount_defaults [OF u d a acmeStored_payload]
  show ?thesis using u d a acmeStored_payload i n v mv by simp
qed

section \<open>Dropping an account on a stage\<close>

text \<open>
  Claim C10. Dropping a dragged account on a stage issues exactly one update, on the
  document of that account, whose payload is the one field \<^verbatim>\<open>stage\<close>; no other document
  changes, and in the document only that field; when the update fails the error is shown
  and the store is as before.
\<close>

theorem handleDragEnd_single_stage_update:
  assumes "dragItem st = Some item" and "get item ''id'' = Str i"
      and "user st = Some uid" and "db st"
  shows "issued (handleDragEnd e stageName st)
           = issued st @ [UpdateDoc uid i [''stage'' \<mapsto> Str stageName]]
         \<and> (\<forall>k. k \<noteq> (uid, i) \<longrightarrow> store (handleDragEnd e stageName st) k = store st k)
         \<and> (\<forall>d. store st (uid, i) = Some d \<and> storeAccepts e \<longrightarrow>
               store (handleDragEnd e stageName st) (uid, i) = Some (d(''stage'' \<mapsto> Str stageName))
               \<and> error (handleDragEnd e stageName st) = error st)
         \<and> (updateDoc e (store st) uid i [''stage'' \<mapsto> Str stageName] = None \<longrightarrow>
               store (handleDragEnd e stageName st) = store st
               \<and> error (handleDragEnd e stageName st) = Some ''Failed to update account stage.'')"
  using assms
  by (auto simp: handleDragEnd_def updateDoc_def Let_def split: option.splits)

theorem handleDragEnd_single_stage_update_witness:
  "dragItem exampleState = Some acmeAccount \<and> get acmeAccount ''id'' = Str ''a1''
   \<and> user exampleState = Some ''u1'' \<and> db exampleState
   \<and> store exampleState (''u1'', ''a1'') = Some acmeDoc \<and> storeAccepts exampleEnv
   \<and> issued (handleDragEnd exampleEnv ''Qualified Opportunities'' exampleState)
       = [UpdateDoc ''u1'' ''a1'' [''stage'' \<mapsto> Str ''Qualified Opportunities'']]
   \<and> store (handleDragEnd exampleEnv ''Qualified Opportunities'' exampleState) (''u1'', ''a1'')
       = Some (acmeDoc(''stage'' \<mapsto> Str ''Qualified Opportunities''))
   \<and> error (handleDragEnd exampleEnv ''Qualified Opportunities'' exampleState) = None
   \<and> updateDoc (exampleEnv\<lparr>storeAccepts := False\<rparr>) (store exampleState) ''u1'' ''a1''
        [''stage'' \<mapsto> Str ''Qualified Opportunities''] = None
   \<and> store (handleDragEnd (exampleEnv\<lparr>storeAccepts := False\<rparr>) ''Qualified Opportunities''
        exampleState) = store exampleState
   \<and> error (handleDragEnd (exampleEnv\<lparr>storeAccepts := False\<rparr>) ''Qualified Opportunities''
        exampleState) = Some ''Failed to update account stage.''"
proof -
  have g: "dragItem exampleState = Some acmeAccount" and u: "user exampleState = Some ''u1''"
    and d: "db exampleState" and i: "issued exampleState = []" and e: "error exampleState = None"
    and s: "store exampleState (''u1'', ''a1'') = Some acmeDoc"
    by (simp_all add: exampleState_def)
  have k: "get acmeAccount ''id'' = Str ''a1''" by (simp add: acmeAccount_def get_def)
  have a: "storeAccepts exampleEnv" by (simp add: exampleEnv_def)
  have f: "updateDoc (exampleEnv\<lparr>storeAccepts := False\<rparr>) (store exampleState) ''u1'' ''a1''
        [''stage'' \<mapsto> Str ''Qualified Opportunities''] = None"
    by (simp add: updateDoc_def s)
  from handleDragEnd_single_stage_update [OF g k u d, of exampleEnv "''Qualified Opportunities''"]
       handleDragEnd_single_stage_update
         [OF g k u d, of "exampleEnv\<lparr>storeAccepts := False\<rparr>" "''Qualified Opportunities''"]
  show ?thesis using g k u d i e s a f by simp
qed

section \<open>Reading the score\<close>

lemma parseFloat_plainNumeral:
  assumes "plainNumeral t"
  shows "parseFloat t = Fin (of_nat (digitsVal t))"
proof -
  from assms obtain c cs where t: "t = c # cs" and c: "isDigit c" and all: "list_all isDigit t"
    by (cases t) (auto simp: plainNumeral_def)
  have ws: "dropWhile isWhiteSpace t = t"
    using t c by (auto simp: isWhiteSpace_def isDigit_def)
  have tw: "takeWhile isDigit t = t" and dw: "dropWhile isDigit t = []"
    using all by (simp_all add: list_all_iff)
  have inf: "take 8 t \<noteq> ''Infinity''"
    using t c by (auto simp: isDigit_def)
  have ne: "t \<noteq> []" using t by simp
  have sg: "signedDecimal t = unsignedDecimal t"
    using t c by (auto simp: signedDecimal_def isDigit_def)
  have "unsignedDecimal t = Some (Fin (of_nat (digitsVal t)), [])"
    using inf ne by (simp add: unsignedDecimal_def tw dw Let_def exponentPart_def scale10_def)
  then show ?thesis by (simp add: parseFloat_def ws sg)
qed

lemma recalculateDealScore_value:
  assumes "snd (recalculateDealScore e d f) = Inr n"
  shows "n = (if get d ''stage'' = Str ''Closed Won'' then Fin 100
              else if get d ''stage'' = Str ''Closed Lost'' then Fin 0
              else (case apiReply e of
                      Reply (Some t) \<Rightarrow> if t = [] then Fin 50 else parseFloat t
                    | _ \<Rightarrow> Fin 50))"
  using assms
  by (auto simp: recalculateDealScore_def callGeminiAPI_def Let_def
      split: if_splits jsval.splits api_reply.splits option.splits)

lemma updateAccountPayload_dealScore:
  assumes "updateAccountPayload e d = Some p"
  shows "get p ''dealScore'' = get d ''dealScore''"
proof -
  from assms obtain closeDate followUp where
    p: "p = d(''value'' \<mapsto> numberOr0 e (get d ''value''),
              ''monthlyValue'' \<mapsto> numberOr0 e (get d ''monthlyValue''),
              ''expectedCloseDate'' \<mapsto> closeDate,
              ''nextFollowUpDate'' \<mapsto> followUp)"
    unfolding updateAccountPayload_def by (simp split: option.splits) blast
  show ?thesis unfolding p get_def by simp
qed

lemma handleUpdateAccount_issued:
  assumes "issued (handleUpdateAccount e d st) = issued st @ [op]"
  shows "\<exists>uid i p. op = UpdateDoc uid i p \<and> updateAccountPayload e d = Some p"
  using assms
  by (auto simp: handleUpdateAccount_def Let_def split: option.splits jsval.splits if_splits)

lemma handleAddAccount_issued:
  assumes "issued (handleAddAccount e d st) = issued st @ [op]"
  shows "\<exists>uid p. op = AddDoc uid p \<and> addAccountPayload e d = Some p"
  using assms
  by (auto simp: handleAddAccount_def Let_def split: option.splits if_splits)

lemma isScore_plainNumeral:
  assumes "plainNumeral t" and "digitsVal t \<le> 100"
  shows "isScore (Num (parseFloat t))"
proof -
  have "rat_of_nat (digitsVal t) \<le> rat_of_nat 100"
    using assms(2) by (simp only: of_nat_le_iff)
  then show ?thesis
    by (simp add: parseFloat_plainNumeral [OF assms(1)] isScore_def)
qed

lemma parseFloat_150: "parseFloat ''150'' = Fin 150"
  by (simp add: parseFloat_def signedDecimal_def unsignedDecimal_def isWhiteSpace_def isDigit_def
      digitsVal_def digitVal_def exponentPart_def scale10_def Let_def)

lemma parseFloat_72: "parseFloat ''72'' = Fin 72"
  by (simp add: parseFloat_def signedDecimal_def unsignedDecimal_def isWhiteSpace_def isDigit_def
      digitsVal_def digitVal_def exponentPart_def scale10_def Let_def)

lemma acme_numbers:
  "numberOr0 e (Str ''1000'') = Num (Fin 1000)" "numberOr0 e (Str ''100'') = Num (Fin 100)"
  by (simp_all add: numberOr0_def js_or_def ToNumber_def StringToNumber_def js_trim_def
      nonDecimalLiteral_def signedDecimal_def unsignedDecimal_def isWhiteSpace_def isDigit_def
      digitsVal_def digitVal_def exponentPart_def scale10_def Let_def)

lemma handleSave_example:
  assumes "apiReply e = Reply (Some t)" and "t \<noteq> []" and "storeAccepts e"
  shows "fst (handleSave e exampleState exampleForm) =
         exampleState\<lparr>issued := [UpdateDoc ''u1'' ''a1'' (acmeUpdate (parseFloat t))],
                       store := (store exampleState)((''u1'', ''a1'') \<mapsto> acmeDoc ++ acmeUpdate (parseFloat t)),
                       showModal := False, selectedAccount := None\<rparr>"
proof -
  have r: "recalculateDealScore e acmeFormData (exampleForm\<lparr>isAddingAccount := True\<rparr>)
           = (exampleForm\<lparr>isAddingAccount := True\<rparr>, Inr (parseFloat t))"
    using assms(1,2)
    by (simp add: recalculateDealScore_def callGeminiAPI_def acmeFormData_def get_def)
  have p: "updateAccountPayload e (acmeFormData(''dealScore'' \<mapsto> Num (parseFloat t)))
           = Some (acmeUpdate (parseFloat t))"
    by (simp add: updateAccountPayload_def dateField_def acmeUpdate_def acmeFormData_def get_def
        acme_numbers)
  have g: "get acmeFormData ''stage'' = Str ''New Leads''"
    by (simp add: acmeFormData_def get_def)
  have u: "handleUpdateAccount e (acmeFormData(''dealScore'' \<mapsto> Num (parseFloat t))) exampleState
      = exampleState\<lparr>issued := [UpdateDoc ''u1'' ''a1'' (acmeUpdate (parseFloat t))],
                       store := (store exampleState)((''u1'', ''a1'') \<mapsto> acmeDoc ++ acmeUpdate (parseFloat t)),
                       showModal := False, selectedAccount := None\<rparr>"
    using assms(3)
    by (simp add: handleUpdateAccount_def p updateDoc_def Let_def exampleState_def acmeAccount_def get_def)
  have sel: "selectedAccount exampleState \<noteq> None" by (simp add: exampleState_def)
  have d: "formData exampleForm = acmeFormData" by (simp add: exampleForm_def)
  show ?thesis
    by (simp add: handleSave_def Let_def d g r u sel)
qed

section \<open>The deal score that a save persists\<close>

text \<open>
  Claim C7, as amended. The deal score in the document that a save sends to the store is
  50 on every create. On an update it is 100 for Closed Won, 0 for Closed Lost, 50 when
  the endpoint gives no text, and otherwise the number that \<^verbatim>\<open>parseFloat\<close> reads from
  the endpoint's text, as it is: the program neither rounds nor clamps it. So it is an
  integer from 0 to 100 on a terminal stage and whenever the text, if there is one, is
  empty or a plain decimal numeral of at most 100.
\<close>

theorem persisted_dealScore:
  assumes "issued (fst (handleSave e st f)) = issued st @ [op]"
  shows "get (payloadOf op) ''dealScore'' =
           Num (case op of
                  AddDoc uid p \<Rightarrow> Fin 50
                | UpdateDoc uid i p \<Rightarrow>
                    if get (formData f) ''stage'' = Str ''Closed Won'' then Fin 100
                    else if get (formData f) ''stage'' = Str ''Closed Lost'' then Fin 0
                    else (case apiReply e of
                            Reply (Some t) \<Rightarrow> if t = [] then Fin 50 else parseFloat t
                          | _ \<Rightarrow> Fin 50))
         \<and> (get (formData f) ''stage'' \<in> {Str ''Closed Won'', Str ''Closed Lost''}
              \<or> (\<forall>t. apiReply e = Reply (Some t) \<longrightarrow>
                    t = [] \<or> plainNumeral t \<and> digitsVal t \<le> 100)
            \<longrightarrow> isScore (get (payloadOf op) ''dealScore''))"
proof -
  define d1 where "d1 =
    (if get (formData f) ''stage'' = Str ''Business Intel'' \<and> \<not> truthy (get (formData f) ''servicesNeeded'')
     then (formData f)(''servicesNeeded'' \<mapsto> Str ''N/A'') else formData f)"
  define r where "r = recalculateDealScore e d1 (f\<lparr>isAddingAccount := True\<rparr>)"
  define score where "score =
    (if get (formData f) ''stage'' = Str ''Closed Won'' then Fin 100
     else if get (formData f) ''stage'' = Str ''Closed Lost'' then Fin 0
     else (case apiReply e of
             Reply (Some t) \<Rightarrow> if t = [] then Fin 50 else parseFloat t
           | _ \<Rightarrow> Fin 50))"
  have stage: "get d1 ''stage'' = get (formData f) ''stage''"
    by (simp add: d1_def get_def)
  have hs: "fst (handleSave e st f) =
      (case snd r of
         Inl err \<Rightarrow> st
       | Inr n \<Rightarrow>
           if selectedAccount st \<noteq> None
           then handleUpdateAccount e (d1(''dealScore'' \<mapsto> Num n)) st
           else handleAddAccount e (d1(''dealScore'' \<mapsto> Num n)) st)"
    by (simp add: handleSave_def Let_def d1_def r_def split: sum.splits)
  from assms obtain n where n: "snd r = Inr n"
    by (cases "snd r") (simp_all add: hs)
  have nscore: "n = score"
    using recalculateDealScore_value [of e d1 "f\<lparr>isAddingAccount := True\<rparr>" n] n
    by (simp add: r_def stage score_def)
  have val: "get (payloadOf op) ''dealScore'' =
      Num (case op of AddDoc uid p \<Rightarrow> Fin 50 | UpdateDoc uid i p \<Rightarrow> score)"
  proof (cases "selectedAccount st \<noteq> None")
    case True
    with assms n have "issued (handleUpdateAccount e (d1(''dealScore'' \<mapsto> Num n)) st) = issued st @ [op]"
      by (simp add: hs)
    from handleUpdateAccount_issued [OF this] obtain uid i p where
      op: "op = UpdateDoc uid i p" and p: "updateAccountPayload e (d1(''dealScore'' \<mapsto> Num n)) = Some p"
      by blast
    from updateAccountPayload_dealScore [OF p] have "get p ''dealScore'' = Num n"
      by (simp add: get_def)
    then show ?thesis by (simp add: op payloadOf_def nscore)
  next
    case False
    with assms n have "issued (handleAddAccount e (d1(''dealScore'' \<mapsto> Num n)) st) = issued st @ [op]"
      by (simp add: hs)
    from handleAddAccount_issued [OF this] obtain uid p where
      op: "op = AddDoc uid p" and p: "addAccountPayload e (d1(''dealScore'' \<mapsto> Num n)) = Some p"
      by blast
    from addAccountPayload_fields(2) [OF p] show ?thesis by (simp add: op payloadOf_def)
  qed
  have fifty: "isScore (Num (Fin 50))" and hundred: "isScore (Num (Fin 100))"
    and zero: "isScore (Num (Fin 0))"
    by (simp_all add: isScore_def)
  have rng: "isScore (get (payloadOf op) ''dealScore'')"
    if c: "get (formData f) ''stage'' \<in> {Str ''Closed Won'', Str ''Closed Lost''}
           \<or> (\<forall>t. apiReply e = Reply (Some t) \<longrightarrow> t = [] \<or> plainNumeral t \<and> digitsVal t \<le> 100)"
  proof -
    have "isScore (Num score)"
    proof (cases "get (formData f) ''stage'' \<in> {Str ''Closed Won'', Str ''Closed Lost''}")
      case True
      then show ?thesis using hundred zero by (auto simp: score_def)
    next
      case False
      with c have a: "\<forall>t. apiReply e = Reply (Some t) \<longrightarrow> t = [] \<or> plainNumeral t \<and> digitsVal t \<le> 100"
        by blast
      show ?thesis
      proof (cases "apiReply e")
        case (Reply x)
        show ?thesis
        proof (cases x)
          case None
          with Reply False show ?thesis using fifty by (simp add: score_def)
        next
          case (Some t)
          with Reply a have "t = [] \<or> plainNumeral t \<and> digitsVal t \<le> 100" by simp
          with Reply Some False show ?thesis
            using fifty isScore_plainNumeral [of t] by (auto simp: score_def)
        qed
      qed (use False fifty in \<open>simp_all add: score_def\<close>)
    qed
    then show ?thesis using val fifty by (cases op) simp_all
  qed
  show ?thesis using val rng unfolding score_def by blast
qed

theorem persisted_dealScore_witness:
  "issued (fst (handleSave (exampleEnv\<lparr>apiReply := Reply (Some ''72'')\<rparr>) exampleState exampleForm))
     = issued exampleState @ [UpdateDoc ''u1'' ''a1'' (acmeUpdate (Fin 72))]
   \<and> get (acmeUpdate (Fin 72)) ''dealScore'' = Num (Fin 72)
   \<and> plainNumeral ''72'' \<and> digitsVal ''72'' \<le> 100
   \<and> isScore (get (acmeUpdate (Fin 72)) ''dealScore'')"
proof -
  have h: "fst (handleSave (exampleEnv\<lparr>apiReply := Reply (Some ''72'')\<rparr>) exampleState exampleForm) =
         exampleState\<lparr>issued := [UpdateDoc ''u1'' ''a1'' (acmeUpdate (parseFloat ''72''))],
                       store := (store exampleState)((''u1'', ''a1'') \<mapsto> acmeDoc ++ acmeUpdate (parseFloat ''72'')),
                       showModal := False, selectedAccount := None\<rparr>"
    by (rule handleSave_example) (simp_all add: exampleEnv_def)
  have i: "issued (fst (handleSave (exampleEnv\<lparr>apiReply := Reply (Some ''72'')\<rparr>) exampleState exampleForm))
     = issued exampleState @ [UpdateDoc ''u1'' ''a1'' (acmeUpdate (Fin 72))]"
    by (simp add: h parseFloat_72) (simp add: exampleState_def)
  have n: "plainNumeral ''72''" and v: "digitsVal ''72'' \<le> 100"
    by (simp_all add: plainNumeral_def isDigit_def digitsVal_def digitVal_def)
  note t = persisted_dealScore [OF i]
  have cond: "get (formData exampleForm) ''stage'' \<in> {Str ''Closed Won'', Str ''Closed Lost''}
      \<or> (\<forall>t. apiReply (exampleEnv\<lparr>apiReply := Reply (Some ''72'')\<rparr>) = Reply (Some t) \<longrightarrow>
            t = [] \<or> plainNumeral t \<and> digitsVal t \<le> 100)"
    using n v by simp
  from t cond have sc: "isScore (get (payloadOf (UpdateDoc ''u1'' ''a1'' (acmeUpdate (Fin 72)))) ''dealScore'')"
    by blast
  have p: "payloadOf (UpdateDoc ''u1'' ''a1'' (acmeUpdate (Fin 72))) = acmeUpdate (Fin 72)"
    by (simp add: payloadOf_def)
  have g: "get (acmeUpdate (Fin 72)) ''dealScore'' = Num (Fin 72)"
    by (simp add: acmeUpdate_def get_def)
  show ?thesis using i g n v sc [unfolded p] by blast
qed

text \<open>
  Claim C7 as stated fails: when the endpoint answers \<open>150\<close> to the save of an account in
  New Leads, the store holds the deal score 150.
\<close>

theorem dealScore_out_of_range_counterexample:
  "persistedDealScore (fst (handleSave exampleEnv exampleState exampleForm)) ''u1'' ''a1''
     = Some (Num (Fin 150))
   \<and> \<not> isScore (Num (Fin 150))"
proof -
  have "fst (handleSave exampleEnv exampleState exampleForm) =
         exampleState\<lparr>issued := [UpdateDoc ''u1'' ''a1'' (acmeUpdate (parseFloat ''150''))],
                       store := (store exampleState)((''u1'', ''a1'') \<mapsto> acmeDoc ++ acmeUpdate (parseFloat ''150'')),
                       showModal := False, selectedAccount := None\<rparr>"
    by (rule handleSave_example) (simp_all add: exampleEnv_def)
  then show ?thesis
    by (simp add: persistedDealScore_def parseFloat_150 acmeUpdate_def get_def isScore_def)
qed

section \<open>A card that does not scan\<close>

text \<open>
  Claim C9. When the endpoint returns malformed JSON to a business-card scan, be it a
  response body that does not decode or a candidate text that \<^verbatim>\<open>JSON.parse\<close> rejects,
  the fields of the form are unchanged, no message appears in the form (the status line is
  empty or still says that the card is being scanned), and the console has a new error.
\<close>

theorem scan_malformed_json:
  assumes "apiReply e = BodyNotJson
           \<or> (\<exists>t. apiReply e = Reply (Some t) \<and> JSON_parse e (strip_fences t) = None)"
  shows "formData (scanBusinessCard e True f) = formData f
         \<and> emailDraft (scanBusinessCard e True f) = emailDraft f
         \<and> agenda (scanBusinessCard e True f) = agenda f
         \<and> newNote (scanBusinessCard e True f) = newNote f
         \<and> dictationStatus (scanBusinessCard e True f) \<in> {[], ''Scanning card...''}
         \<and> (\<exists>entry entries. console (scanBusinessCard e True f) = console f @ entry # entries)"
  using assms
proof (elim disjE exE conjE)
  assume "apiReply e = BodyNotJson"
  then show ?thesis
    by (simp add: scanBusinessCard_def reportUncaught_def handleScanBusinessCard_def
        callGeminiAPI_def Let_def)
next
  fix t
  assume a: "apiReply e = Reply (Some t)" and j: "JSON_parse e (strip_fences t) = None"
  show ?thesis
    by (cases "t = []")
       (simp_all add: scanBusinessCard_def reportUncaught_def handleScanBusinessCard_def
          callGeminiAPI_def Let_def a j)
qed

theorem scan_malformed_json_witness:
  "apiReply unreadableEnv = Reply (Some ''Sorry, I cannot read this card.'')
   \<and> JSON_parse unreadableEnv (strip_fences ''Sorry, I cannot read this card.'') = None
   \<and> formData (scanBusinessCard unreadableEnv True exampleForm) = formData exampleForm
   \<and> dictationStatus (scanBusinessCard unreadableEnv True exampleForm) = ''Scanning card...''
   \<and> console (scanBusinessCard unreadableEnv True exampleForm) = [UnhandledRejection SyntaxError]"
proof -
  have a: "apiReply unreadableEnv = Reply (Some ''Sorry, I cannot read this card.'')"
    by (simp add: unreadableEnv_def)
  have s: "strip_fences ''Sorry, I cannot read this card.'' = ''Sorry, I cannot read this card.''"
    by (simp add: fenceOpen_def fenceClose_def)
  have j: "JSON_parse unreadableEnv (strip_fences ''Sorry, I cannot read this card.'') = None"
    unfolding s by (simp add: JSON_parse_def isJsonSpace_def)
  have c: "console exampleForm = []" by (simp add: exampleForm_def)
  have "apiReply unreadableEnv = BodyNotJson
        \<or> (\<exists>t. apiReply unreadableEnv = Reply (Some t)
               \<and> JSON_parse unreadableEnv (strip_fences t) = None)"
    using a j by blast
  from scan_malformed_json [OF this, of exampleForm]
  have "formData (scanBusinessCard unreadableEnv True exampleForm) = formData exampleForm" by blast
  moreover have "dictationStatus (scanBusinessCard unreadableEnv True exampleForm) = ''Scanning card...''"
    and "console (scanBusinessCard unreadableEnv True exampleForm) = [UnhandledRejection SyntaxError]"
    using a j c
    by (simp_all add: scanBusinessCard_def reportUncaught_def handleScanBusinessCard_def
        callGeminiAPI_def Let_def)
  ultimately show ?thesis using a j by blast
qed

text \<open>
  On a text that does not parse the error on the console is the browser's report of the
  exception, and the two resetting calls at the end of the callback are skipped.
\<close>

lemma scan_unparsable_text_stays_busy:
  assumes "apiReply e = Reply (Some t)" and "t \<noteq> []"
      and "JSON_parse e (strip_fences t) = None"
  shows "loadingAI (scanBusinessCard e True f)
         \<and> dictationStatus (scanBusinessCard e True f) = ''Scanning card...''
         \<and> console (scanBusinessCard e True f) = console f @ [UnhandledRejection SyntaxError]"
  using assms
  by (simp add: scanBusinessCard_def reportUncaught_def handleScanBusinessCard_def
      callGeminiAPI_def Let_def)

section \<open>A note that is not appended\<close>

text \<open>
  Whatever the account and the note, \<^verbatim>\<open>handleAddNote\<close> issues no call of the store and
  leaves the form's data as they are.
\<close>

lemma handleAddNote_never_persists:
  "issued (fst (handleAddNote e st f)) = issued st
   \<and> store (fst (handleAddNote e st f)) = store st
   \<and> formData (fst (snd (handleAddNote e st f))) = formData f"
  by (simp add: handleAddNote_def resolves_def AccountForm_scope_def Let_def
      split: option.splits sum.splits)

text \<open>
  Claim C6 fails on the program. On an existing account with the note
  \<open>Called the client\<close>, \<^verbatim>\<open>handleAddNote\<close> throws a \<^verbatim>\<open>ReferenceError\<close> on \<^verbatim>\<open>db\<close>
  before it reaches \<^verbatim>\<open>updateDoc\<close>: the store, the notes of the form and the text of the
  note are as before.
\<close>

theorem handleAddNote_ReferenceError:
  "handleAddNote exampleEnv exampleState exampleForm
     = (exampleState, exampleForm, Some (ReferenceError ''db''))"
proof -
  have a: "account exampleForm = Some acmeAccount"
    and n: "newNote exampleForm = ''Called the client''"
    and d: "formData exampleForm = acmeFormData"
    by (simp_all add: exampleForm_def)
  have t: "js_trim ''Called the client'' \<noteq> []"
    by (simp add: js_trim_def isWhiteSpace_def)
  have s: "spreadNotes (get acmeFormData ''notes'') = Inr []"
    by (simp add: spreadNotes_def acmeFormData_def get_def)
  have r: "\<not> resolves ''db''"
    by (simp add: resolves_def AccountForm_scope_def)
  show ?thesis
    by (simp add: handleAddNote_def a n d t s r Let_def)
qed

end
